theory Spec2Isabelle
  imports Complex_Main
begin

section \<open>The N-body simulation of src/src/simulation.cpp\<close>

text \<open>
  The simulation computes in single-precision \<open>float\<close>. The embedding idealises \<open>float\<close>
  as \<open>real\<close>: no rounding, no infinities, no NaN. The divisions of \<open>updatePhysics\<close> are
  guarded in the source itself (by the mass test of \<open>applyForce\<close> and by the softening
  floor), apart from the one inside \<open>glm::inverse\<close>, and its square roots are taken of
  numbers that are at least \<open>1e-4\<close>. The square roots of \<open>initializeCelestialBodies\<close> are
  taken of \<open>G_scaled * sunMass / r\<close> with \<open>sunMass\<close> and \<open>r\<close> positive, so they are
  defined when \<open>G_scaled\<close> is not negative.
\<close>

subsection \<open>The glm operations the simulation calls\<close>

type_synonym vec3 = "real \<times> real \<times> real"
type_synonym vec4 = "real \<times> real \<times> real \<times> real"
type_synonym mat3 = "vec3 \<times> vec3 \<times> vec3"
type_synonym mat4 = "vec4 \<times> vec4 \<times> vec4 \<times> vec4"

text \<open>\<open>glm::quat(w, x, y, z)\<close>.\<close>

record quat =
  qw :: real
  qx :: real
  qy :: real
  qz :: real

definition vec3_zero :: vec3 where
  "vec3_zero = (0, 0, 0)"

fun vec3_add :: "vec3 \<Rightarrow> vec3 \<Rightarrow> vec3" where
  "vec3_add (a, b, c) (d, e, f) = (a + d, b + e, c + f)"

fun vec3_sub :: "vec3 \<Rightarrow> vec3 \<Rightarrow> vec3" where
  "vec3_sub (a, b, c) (d, e, f) = (a - d, b - e, c - f)"

text \<open>\<open>v * s\<close>, \<open>s * v\<close> and \<open>v / s\<close> for a vector \<open>v\<close> and a scalar \<open>s\<close>.\<close>

fun vec3_times :: "vec3 \<Rightarrow> real \<Rightarrow> vec3" where
  "vec3_times (a, b, c) s = (a * s, b * s, c * s)"

fun times_vec3 :: "real \<Rightarrow> vec3 \<Rightarrow> vec3" where
  "times_vec3 s (a, b, c) = (s * a, s * b, s * c)"

fun vec3_div :: "vec3 \<Rightarrow> real \<Rightarrow> vec3" where
  "vec3_div (a, b, c) s = (a / s, b / s, c / s)"

fun dot :: "vec3 \<Rightarrow> vec3 \<Rightarrow> real" where
  "dot (a, b, c) (d, e, f) = a * d + b * e + c * f"

text \<open>\<open>glm::normalize(v) = v * inversesqrt(dot(v, v))\<close>.\<close>

definition normalize_vec3 :: "vec3 \<Rightarrow> vec3" where
  "normalize_vec3 v = vec3_times v (1 / sqrt (dot v v))"

text \<open>\<open>glm::radians\<close>: degrees times \<open>pi / 180\<close>.\<close>

definition radians :: "real \<Rightarrow> real" where
  "radians degrees = degrees * (pi / 180)"

text \<open>\<open>glm::angleAxis(angle, v) = quat(cos(angle / 2), v * sin(angle / 2))\<close>.\<close>

fun angleAxis :: "real \<Rightarrow> vec3 \<Rightarrow> quat" where
  "angleAxis angle (a, b, c) =
     \<lparr>qw = cos (angle * (1 / 2)), qx = a * sin (angle * (1 / 2)),
      qy = b * sin (angle * (1 / 2)), qz = c * sin (angle * (1 / 2))\<rparr>"

fun vec4_add :: "vec4 \<Rightarrow> vec4 \<Rightarrow> vec4" where
  "vec4_add (a, b, c, d) (e, f, g, h) = (a + e, b + f, c + g, d + h)"

fun vec4_times :: "vec4 \<Rightarrow> real \<Rightarrow> vec4" where
  "vec4_times (a, b, c, d) s = (a * s, b * s, c * s, d * s)"

text \<open>Matrices are column-major: a \<open>mat4\<close> is its four columns. \<open>glm::mat4(1.0f)\<close>:\<close>

definition mat4_identity :: mat4 where
  "mat4_identity = ((1, 0, 0, 0), (0, 1, 0, 0), (0, 0, 1, 0), (0, 0, 0, 1))"

text \<open>\<open>m * v\<close>: the combination of the columns of \<open>m\<close> by the entries of \<open>v\<close>.\<close>

fun mat4_vec4 :: "mat4 \<Rightarrow> vec4 \<Rightarrow> vec4" where
  "mat4_vec4 (m0, m1, m2, m3) (x, y, z, w) =
     vec4_add (vec4_add (vec4_add (vec4_times m0 x) (vec4_times m1 y)) (vec4_times m2 z))
       (vec4_times m3 w)"

fun mat4_mul :: "mat4 \<Rightarrow> mat4 \<Rightarrow> mat4" where
  "mat4_mul m (b0, b1, b2, b3) = (mat4_vec4 m b0, mat4_vec4 m b1, mat4_vec4 m b2, mat4_vec4 m b3)"

text \<open>\<open>glm::translate(m, v)\<close>: the last column becomes \<open>m[0]*v.x + m[1]*v.y + m[2]*v.z + m[3]\<close>.\<close>

fun translate :: "mat4 \<Rightarrow> vec3 \<Rightarrow> mat4" where
  "translate (m0, m1, m2, m3) (x, y, z) =
     (m0, m1, m2,
      vec4_add (vec4_add (vec4_add (vec4_times m0 x) (vec4_times m1 y)) (vec4_times m2 z)) m3)"

text \<open>\<open>glm::scale(m, v)\<close>: the first three columns are scaled.\<close>

fun scale :: "mat4 \<Rightarrow> vec3 \<Rightarrow> mat4" where
  "scale (m0, m1, m2, m3) (x, y, z) = (vec4_times m0 x, vec4_times m1 y, vec4_times m2 z, m3)"

text \<open>\<open>glm::mat4_cast(q)\<close>: the rotation matrix of a quaternion.\<close>

definition mat4_cast :: "quat \<Rightarrow> mat4" where
  "mat4_cast q =
     (let qxx = qx q * qx q; qyy = qy q * qy q; qzz = qz q * qz q;
          qxz = qx q * qz q; qxy = qx q * qy q; qyz = qy q * qz q;
          qwx = qw q * qx q; qwy = qw q * qy q; qwz = qw q * qz q
      in ((1 - 2 * (qyy + qzz), 2 * (qxy + qwz), 2 * (qxz - qwy), 0),
          (2 * (qxy - qwz), 1 - 2 * (qxx + qzz), 2 * (qyz + qwx), 0),
          (2 * (qxz + qwy), 2 * (qyz - qwx), 1 - 2 * (qxx + qyy), 0),
          (0, 0, 0, 1)))"

text \<open>\<open>glm::mat3(m)\<close> of a \<open>mat4\<close>: the upper-left 3x3 block.\<close>

fun mat3_of_mat4 :: "mat4 \<Rightarrow> mat3" where
  "mat3_of_mat4 ((a0, a1, a2, a3), (b0, b1, b2, b3), (c0, c1, c2, c3), d) =
     ((a0, a1, a2), (b0, b1, b2), (c0, c1, c2))"

fun transpose_mat3 :: "mat3 \<Rightarrow> mat3" where
  "transpose_mat3 ((a0, a1, a2), (b0, b1, b2), (c0, c1, c2)) =
     ((a0, b0, c0), (a1, b1, c1), (a2, b2, c2))"

text \<open>
  \<open>glm::inverse\<close> of a \<open>mat3\<close>: the cofactors times one over the determinant. For a
  singular matrix the source divides by zero.
\<close>

fun inverse_mat3 :: "mat3 \<Rightarrow> mat3" where
  "inverse_mat3 ((m00, m01, m02), (m10, m11, m12), (m20, m21, m22)) =
     (let OneOverDeterminant = 1 / (m00 * (m11 * m22 - m21 * m12)
                                    - m10 * (m01 * m22 - m21 * m02)
                                    + m20 * (m01 * m12 - m11 * m02))
      in ((  (m11 * m22 - m21 * m12) * OneOverDeterminant,
           - (m01 * m22 - m21 * m02) * OneOverDeterminant,
             (m01 * m12 - m11 * m02) * OneOverDeterminant),
          (- (m10 * m22 - m20 * m12) * OneOverDeterminant,
             (m00 * m22 - m20 * m02) * OneOverDeterminant,
           - (m00 * m12 - m10 * m02) * OneOverDeterminant),
          (  (m10 * m21 - m20 * m11) * OneOverDeterminant,
           - (m00 * m21 - m20 * m01) * OneOverDeterminant,
             (m00 * m11 - m10 * m01) * OneOverDeterminant)))"

subsection \<open>struct CelestialBody\<close>

text \<open>
  \<open>meshPtr\<close> is either null or the address of the one global \<open>sphereMesh\<close>;
  \<open>modelPtr\<close> is null or the address of a loaded model.
\<close>

datatype mesh_ref = NullMesh | SphereMesh

record CelestialBody =
  position :: vec3
  velocity :: vec3
  acceleration :: vec3
  mass :: real
  radiusScale :: real
  modelPtr :: "nat option"
  meshPtr :: mesh_ref
  orientation :: quat
  modelMatrix :: mat4
  isStatic :: bool
  isAsteroid :: bool
  type :: int

definition updateModelMatrix :: "CelestialBody \<Rightarrow> CelestialBody" where
  "updateModelMatrix b =
     (let trans = translate mat4_identity (position b);
          rot = mat4_cast (orientation b);
          scale_mat = scale mat4_identity (radiusScale b, radiusScale b, radiusScale b)
      in b\<lparr>modelMatrix := mat4_mul (mat4_mul trans rot) scale_mat\<rparr>)"

text \<open>
  The constructor: the member initialisers leave \<open>modelMatrix\<close> uninitialised and the
  body of the constructor sets it at once; the identity stands for the value that is
  never read.
\<close>

definition newCelestialBody ::
  "vec3 \<Rightarrow> vec3 \<Rightarrow> real \<Rightarrow> real \<Rightarrow> nat option \<Rightarrow> mesh_ref \<Rightarrow> quat \<Rightarrow> bool \<Rightarrow> bool \<Rightarrow> int
   \<Rightarrow> CelestialBody" where
  "newCelestialBody pos vel m rScale model mesh orient stat asteroid t =
     updateModelMatrix
       \<lparr>position = pos, velocity = vel, acceleration = vec3_zero, mass = m,
        radiusScale = rScale, modelPtr = model, meshPtr = mesh, orientation = orient,
        modelMatrix = mat4_identity, isStatic = stat, isAsteroid = asteroid, type = t\<rparr>"

definition applyForce :: "vec3 \<Rightarrow> CelestialBody \<Rightarrow> CelestialBody" where
  "applyForce force b =
     (if isStatic b \<or> mass b = 0 then b
      else b\<lparr>acceleration := vec3_add (acceleration b) (vec3_div force (mass b))\<rparr>)"

definition update :: "real \<Rightarrow> CelestialBody \<Rightarrow> CelestialBody" where
  "update dt b =
     (if isStatic b then updateModelMatrix (b\<lparr>acceleration := vec3_zero\<rparr>)
      else
        (let b1 = b\<lparr>velocity := vec3_add (velocity b) (vec3_times (acceleration b) dt)\<rparr>;
             b2 = b1\<lparr>position := vec3_add (position b1) (vec3_times (velocity b1) dt)\<rparr>;
             b3 = b2\<lparr>acceleration := vec3_zero\<rparr>
         in updateModelMatrix b3))"

subsection \<open>The global state\<close>

text \<open>
  A call of the graphics library that \<open>updatePhysics\<close> makes: the buffer bound to
  \<open>GL_ARRAY_BUFFER\<close>, or a \<open>glBufferSubData\<close> with its offset, its size in bytes and the
  matrices it copies from the host array.
\<close>

datatype gl_call =
    BindBuffer nat
  | BufferSubDataMat4 nat nat "mat4 option list"
  | BufferSubDataMat3 nat nat "mat3 option list"

text \<open>
  The globals of simulation.cpp that the simulation reads or writes. A host array is
  \<open>None\<close> when the pointer is null; an element is \<open>None\<close> until it is first written
  (\<open>new glm::mat4[n]\<close> does not initialise). \<open>glCalls\<close> is the trace of the calls made.
\<close>

record globals =
  simulationSpeed :: real
  G_scaled :: real
  celestialBodies :: "CelestialBody list"
  planetModelPtr :: "nat option"
  rockModelPtr :: "nat option"
  asteroidAmount :: nat
  asteroidModelMatrices :: "mat4 option list option"
  asteroidNormalMatrices :: "mat3 option list option"
  asteroidInstanceVBO :: nat
  asteroidNormalInstanceVBO :: nat
  sunMass :: real
  sunRadiusScale :: real
  planetMass :: real
  planetRadiusScale :: real
  planetOrbitRadius :: real
  planetInitialAngle :: real
  avgAsteroidMass :: real
  minAsteroidScale :: real
  maxAsteroidScale :: real
  asteroidBeltInnerRadius :: real
  asteroidBeltOuterRadius :: real
  asteroidBeltHeight :: real
  pauseSimulation :: bool
  glCalls :: "gl_call list"

text \<open>\<open>sizeof(glm::mat4)\<close> and \<open>sizeof(glm::mat3)\<close>.\<close>

definition sizeof_mat4 :: nat where
  "sizeof_mat4 = 64"

definition sizeof_mat3 :: nat where
  "sizeof_mat3 = 36"

subsection \<open>initializeCelestialBodies\<close>

text \<open>
  The standard library's random numbers are not code of the repository; they are a
  parameter: \<open>mt19937 seed\<close> is the generator seeded with \<open>seed\<close>, and
  \<open>uniform_real a b g\<close> is one draw of \<open>std::uniform_real_distribution<float>(a, b)\<close>
  from the generator \<open>g\<close>, with the generator after the draw.
\<close>

record 'g random_lib =
  mt19937 :: "nat \<Rightarrow> 'g"
  uniform_real :: "real \<Rightarrow> real \<Rightarrow> 'g \<Rightarrow> real \<times> 'g"

text \<open>
  The body of the asteroid loop: one asteroid from the generator. The three draws for
  the rotation axis are arguments of one constructor call; they are taken left to right.
\<close>

definition newAsteroid :: "'g random_lib \<Rightarrow> globals \<Rightarrow> 'g \<Rightarrow> CelestialBody \<times> 'g" where
  "newAsteroid L s g0 =
     (let (r, g1) = uniform_real L (asteroidBeltInnerRadius s) (asteroidBeltOuterRadius s) g0;
          (angle, g2) = uniform_real L 0 (2 * pi) g1;
          (y, g3) = uniform_real L (- asteroidBeltHeight s / 2) (asteroidBeltHeight s / 2) g2;
          pos = (r * cos angle, y, r * sin angle);
          velMag = (if sunMass s > 0 \<and> r > 0 then sqrt ((G_scaled s * sunMass s) / r) else 0);
          vel = (- velMag * sin angle, 0, velMag * cos angle);
          (px, g4) = uniform_real L (- velMag * (1 / 10)) (velMag * (1 / 10)) g3;
          (py, g5) = uniform_real L (- velMag * (1 / 10)) (velMag * (1 / 10)) g4;
          (pz, g6) = uniform_real L (- velMag * (1 / 10)) (velMag * (1 / 10)) g5;
          vel = (fst vel + px, fst (snd vel) + py * (1 / 10), snd (snd vel) + pz);
          (massFactor, g7) = uniform_real L (1 / 2) (3 / 2) g6;
          currentAsteroidMass = avgAsteroidMass s * massFactor;
          (currentAsteroidScale, g8) = uniform_real L (minAsteroidScale s) (maxAsteroidScale s) g7;
          (ax, g9) = uniform_real L 0 360 g8;
          (ay, g10) = uniform_real L 0 360 g9;
          (az, g11) = uniform_real L 0 360 g10;
          randomAxis = normalize_vec3 (ax + 1 / 10, ay + 1 / 10, az + 1 / 10);
          (rot, g12) = uniform_real L 0 360 g11;
          orientation = angleAxis (radians rot) randomAxis
      in (newCelestialBody pos vel currentAsteroidMass currentAsteroidScale (rockModelPtr s)
            NullMesh orientation False True 2, g12))"

text \<open>The loop \<open>for (i = 0; i < asteroidAmount; i++)\<close>, by the iterations left.\<close>

fun asteroidLoop ::
  "'g random_lib \<Rightarrow> globals \<Rightarrow> nat \<Rightarrow> 'g \<Rightarrow> CelestialBody list \<Rightarrow> CelestialBody list" where
  "asteroidLoop L s 0 g bodies = bodies"
| "asteroidLoop L s (Suc n) g bodies =
     (let (b, g') = newAsteroid L s g in asteroidLoop L s n g' (bodies @ [b]))"

text \<open>
  \<open>seed\<close> is the value of \<open>static_cast<unsigned int>(glfwGetTime())\<close> at the call.
\<close>

definition initializeCelestialBodies :: "'g random_lib \<Rightarrow> nat \<Rightarrow> globals \<Rightarrow> globals" where
  "initializeCelestialBodies L seed s =
     (let sunPos = (0, 0, 0);
          sunVel = (0, 0, 0);
          sun = newCelestialBody sunPos sunVel (sunMass s) (sunRadiusScale s) None SphereMesh
                  \<lparr>qw = 1, qx = 0, qy = 0, qz = 0\<rparr> False False 0;
          angleRad = radians (planetInitialAngle s);
          planetPos = (planetOrbitRadius s * cos angleRad, 0, planetOrbitRadius s * sin angleRad);
          orbitalVelMag = (if sunMass s > 0 \<and> planetOrbitRadius s > 0
                           then sqrt ((G_scaled s * sunMass s) / planetOrbitRadius s) else 0);
          planetVel = (- orbitalVelMag * sin angleRad, 0, orbitalVelMag * cos angleRad);
          planet = newCelestialBody planetPos planetVel (planetMass s) (planetRadiusScale s)
                     (planetModelPtr s) NullMesh (angleAxis (radians 0) (0, 1, 0)) False False 1;
          s1 = s\<lparr>celestialBodies := [sun, planet]\<rparr>;
          s2 = (if asteroidAmount s1 > 0
                then s1\<lparr>asteroidModelMatrices := Some (replicate (asteroidAmount s1) None),
                        asteroidNormalMatrices := Some (replicate (asteroidAmount s1) None)\<rparr>
                else s1\<lparr>asteroidModelMatrices := None, asteroidNormalMatrices := None\<rparr>);
          rng = mt19937 L seed
      in s2\<lparr>celestialBodies := asteroidLoop L s2 (asteroidAmount s2) rng (celestialBodies s2)\<rparr>)"

subsection \<open>updatePhysics\<close>

text \<open>The force that body \<open>bj\<close> exerts on body \<open>bi\<close>: \<open>force_vec\<close> of the inner loop.\<close>

definition force_vec :: "real \<Rightarrow> CelestialBody \<Rightarrow> CelestialBody \<Rightarrow> vec3" where
  "force_vec G bi bj =
     (let r_vec = vec3_sub (position bj) (position bi);
          r_mag_sq = dot r_vec r_vec;
          epsilon_sq = 1 / 10000;
          r_mag_sq = (if r_mag_sq < epsilon_sq then epsilon_sq else r_mag_sq);
          r_mag = sqrt r_mag_sq;
          r_hat = (if r_mag > 0 then vec3_div r_vec r_mag else vec3_zero);
          force_mag = (G * mass bi * mass bj) / r_mag_sq
      in times_vec3 force_mag r_hat)"

text \<open>One iteration of the inner loop, for the pair \<open>(i, j)\<close>.\<close>

definition pairStep :: "real \<Rightarrow> nat \<Rightarrow> nat \<Rightarrow> CelestialBody list \<Rightarrow> CelestialBody list" where
  "pairStep G i j bodies =
     (if i = j then bodies
      else if isAsteroid (bodies ! i) \<and> isAsteroid (bodies ! j) then bodies
      else bodies[i := applyForce (force_vec G (bodies ! i) (bodies ! j)) (bodies ! i)])"

text \<open>One iteration of the outer loop: all forces on body \<open>i\<close>.\<close>

definition forcesOn :: "real \<Rightarrow> nat \<Rightarrow> CelestialBody list \<Rightarrow> CelestialBody list" where
  "forcesOn G i bodies =
     (if isStatic (bodies ! i) then bodies
      else fold (pairStep G i) [0..<length bodies] bodies)"

text \<open>The first loop nest of \<open>updatePhysics\<close>.\<close>

definition forcePhase :: "real \<Rightarrow> CelestialBody list \<Rightarrow> CelestialBody list" where
  "forcePhase G bodies = fold (forcesOn G) [0..<length bodies] bodies"

text \<open>
  A write to a host array: \<open>None\<close> is a write through a null pointer or past the end of
  the allocation, which the source does not check.
\<close>

definition writeSlot :: "'a option list option \<Rightarrow> nat \<Rightarrow> 'a \<Rightarrow> 'a option list option" where
  "writeSlot arr idx v =
     (case arr of None \<Rightarrow> None
      | Some a \<Rightarrow> if idx < length a then Some (a[idx := Some v]) else None)"

text \<open>
  The state of the second loop: the bodies, \<open>asteroidInstanceIdx\<close> and the two host
  arrays.
\<close>

type_synonym publish_state =
  "CelestialBody list \<times> nat \<times> mat4 option list option \<times> mat3 option list option"

text \<open>One iteration of the second loop, at index \<open>i\<close>.\<close>

definition publishStep :: "real \<Rightarrow> nat \<Rightarrow> nat \<Rightarrow> publish_state \<Rightarrow> publish_state option" where
  "publishStep dt amount i st =
     (case st of (bodies, asteroidInstanceIdx, models, normals) \<Rightarrow>
        (let bodies = bodies[i := update dt (bodies ! i)]
         in if isAsteroid (bodies ! i) \<and> asteroidInstanceIdx < amount
            then (case writeSlot models asteroidInstanceIdx (modelMatrix (bodies ! i)) of
                    None \<Rightarrow> None
                  | Some models' \<Rightarrow>
                      (case writeSlot normals asteroidInstanceIdx
                              (transpose_mat3 (inverse_mat3 (mat3_of_mat4 (modelMatrix (bodies ! i))))) of
                         None \<Rightarrow> None
                       | Some normals' \<Rightarrow>
                           Some (bodies, asteroidInstanceIdx + 1, Some models', Some normals')))
            else Some (bodies, asteroidInstanceIdx, models, normals)))"

text \<open>The second loop of \<open>updatePhysics\<close>; it stops at the first bad write.\<close>

definition publishLoop :: "real \<Rightarrow> nat \<Rightarrow> publish_state \<Rightarrow> publish_state option" where
  "publishLoop dt amount st =
     fold (\<lambda>i r. Option.bind r (publishStep dt amount i)) [0..<length (fst st)] (Some st)"

text \<open>
  \<open>updatePhysics\<close>. The result is \<open>None\<close> when the call writes outside a host array
  (undefined behaviour in the source).
\<close>

definition updatePhysics :: "real \<Rightarrow> globals \<Rightarrow> globals option" where
  "updatePhysics dt0 s =
     (if pauseSimulation s then Some s
      else
        (let dt = dt0 * simulationSpeed s
         in if dt = 0 then Some s
            else
              (case publishLoop dt (asteroidAmount s)
                      (forcePhase (G_scaled s) (celestialBodies s), 0,
                       asteroidModelMatrices s, asteroidNormalMatrices s) of
                 None \<Rightarrow> None
               | Some (bodies, asteroidInstanceIdx, models, normals) \<Rightarrow>
                   (let s1 = s\<lparr>celestialBodies := bodies, asteroidModelMatrices := models,
                               asteroidNormalMatrices := normals\<rparr>
                    in if asteroidAmount s1 > 0 \<and> asteroidInstanceIdx > 0
                          \<and> asteroidInstanceVBO s1 \<noteq> 0 \<and> asteroidNormalInstanceVBO s1 \<noteq> 0
                       then
                         (case (models, normals) of
                            (Some ms, Some ns) \<Rightarrow>
                              Some (s1\<lparr>glCalls := glCalls s1 @
                                [BindBuffer (asteroidInstanceVBO s1),
                                 BufferSubDataMat4 0 (asteroidInstanceIdx * sizeof_mat4)
                                   (take asteroidInstanceIdx ms),
                                 BindBuffer (asteroidNormalInstanceVBO s1),
                                 BufferSubDataMat3 0 (asteroidInstanceIdx * sizeof_mat3)
                                   (take asteroidInstanceIdx ns),
                                 BindBuffer 0]\<rparr>)
                          | _ \<Rightarrow> None)
                       else Some s1))))"

text \<open>A run of calls of \<open>updatePhysics\<close>, one for each frame time of the list.\<close>

fun updatePhysicsN :: "real list \<Rightarrow> globals \<Rightarrow> globals option" where
  "updatePhysicsN [] s = Some s"
| "updatePhysicsN (dt # dts) s =
     (case updatePhysics dt s of None \<Rightarrow> None | Some s' \<Rightarrow> updatePhysicsN dts s')"

subsection \<open>Notions used to state the properties\<close>

text \<open>A body with its acceleration blanked: everything the force phase only reads.\<close>

definition frame :: "CelestialBody \<Rightarrow> CelestialBody" where
  "frame b = b\<lparr>acceleration := vec3_zero\<rparr>"

text \<open>
  The inner loop seen from body \<open>i\<close> alone: \<open>b\<close> is the running value of
  \<open>celestialBodies[i]\<close>, \<open>js\<close> the indices still to visit.
\<close>

definition accumulate ::
  "real \<Rightarrow> CelestialBody list \<Rightarrow> nat \<Rightarrow> nat list \<Rightarrow> CelestialBody \<Rightarrow> CelestialBody" where
  "accumulate G bodies i js b =
     fold (\<lambda>j b. if i = j \<or> (isAsteroid b \<and> isAsteroid (bodies ! j)) then b
                  else applyForce (force_vec G b (bodies ! j)) b) js b"

text \<open>
  The contribution to the acceleration of \<open>bi\<close> from \<open>bj\<close>, in the words of the
  specification: \<open>G * mass[i] * mass[j] / max(|r|^2, 1e-4)\<close> times the unit vector from
  \<open>i\<close> toward \<open>j\<close>, divided by \<open>mass[i]\<close>, with \<open>r = position[j] - position[i]\<close>.
\<close>

definition unit_vector :: "vec3 \<Rightarrow> vec3" where
  "unit_vector r = vec3_div r (sqrt (dot r r))"

definition spec_contribution :: "real \<Rightarrow> CelestialBody \<Rightarrow> CelestialBody \<Rightarrow> vec3" where
  "spec_contribution G bi bj =
     (let r = vec3_sub (position bj) (position bi)
      in vec3_div (times_vec3 (G * mass bi * mass bj / max (dot r r) (1 / 10000)) (unit_vector r))
           (mass bi))"

text \<open>
  The same with the direction the source computes: \<open>r\<close> divided by the square root of
  the softened squared separation (the unit vector exactly when \<open>|r|^2 \<ge> 1e-4\<close>).
\<close>

definition softened_direction :: "vec3 \<Rightarrow> vec3" where
  "softened_direction r = vec3_div r (sqrt (max (dot r r) (1 / 10000)))"

definition softened_contribution :: "real \<Rightarrow> CelestialBody \<Rightarrow> CelestialBody \<Rightarrow> vec3" where
  "softened_contribution G bi bj =
     (let r = vec3_sub (position bj) (position bi)
      in vec3_div
           (times_vec3 (G * mass bi * mass bj / max (dot r r) (1 / 10000)) (softened_direction r))
           (mass bi))"

text \<open>
  The host arrays as a rebuild leaves them for an instance count \<open>n\<close>: null when
  \<open>n = 0\<close>, else \<open>n\<close> elements.
\<close>

definition allocatedFor :: "nat \<Rightarrow> 'a option list option \<Rightarrow> bool" where
  "allocatedFor n arr = (case arr of None \<Rightarrow> n = 0 | Some a \<Rightarrow> 0 < n \<and> length a = n)"

text \<open>The array \<open>a\<close> with its first \<open>length xs\<close> elements overwritten by \<open>xs\<close>.\<close>

definition overwrite :: "'a list \<Rightarrow> 'a option list \<Rightarrow> 'a option list" where
  "overwrite xs a = map Some xs @ drop (length xs) a"

text \<open>The inverse-transpose of the upper 3x3 block of a transform.\<close>

definition inverse_transpose_upper3 :: "mat4 \<Rightarrow> mat3" where
  "inverse_transpose_upper3 m = transpose_mat3 (inverse_mat3 (mat3_of_mat4 m))"

text \<open>
  A body at rest at \<open>pos\<close> with mass \<open>m\<close>, unit scale and the identity orientation, as
  the constructor makes it.
\<close>

definition bodyAt :: "vec3 \<Rightarrow> real \<Rightarrow> bool \<Rightarrow> bool \<Rightarrow> CelestialBody" where
  "bodyAt pos m stat asteroid =
     newCelestialBody pos (0, 0, 0) m 1 None NullMesh \<lparr>qw = 1, qx = 0, qy = 0, qz = 0\<rparr>
       stat asteroid (if asteroid then 2 else 1)"

text \<open>The configuration: the globals that \<open>initializeCelestialBodies\<close> reads.\<close>

definition config ::
  "globals \<Rightarrow> (real \<times> real \<times> real) \<times> (real \<times> real \<times> real \<times> real) \<times>
     (nat \<times> real \<times> real \<times> real \<times> real \<times> real \<times> real) \<times> nat option \<times> nat option" where
  "config s =
     ((G_scaled s, sunMass s, sunRadiusScale s),
      (planetMass s, planetRadiusScale s, planetOrbitRadius s, planetInitialAngle s),
      (asteroidAmount s, avgAsteroidMass s, minAsteroidScale s, maxAsteroidScale s,
       asteroidBeltInnerRadius s, asteroidBeltOuterRadius s, asteroidBeltHeight s),
      planetModelPtr s, rockModelPtr s)"

text \<open>The globals as their initialisers in simulation.cpp leave them.\<close>

definition startGlobals :: globals where
  "startGlobals =
     \<lparr>simulationSpeed = 1, G_scaled = 1000, celestialBodies = [],
      planetModelPtr = None, rockModelPtr = None, asteroidAmount = 0,
      asteroidModelMatrices = None, asteroidNormalMatrices = None,
      asteroidInstanceVBO = 0, asteroidNormalInstanceVBO = 0,
      sunMass = 20000, sunRadiusScale = 15,
      planetMass = 200, planetRadiusScale = 4, planetOrbitRadius = 70, planetInitialAngle = 0,
      avgAsteroidMass = 1 / 10, minAsteroidScale = 1 / 20, maxAsteroidScale = 1 / 4,
      asteroidBeltInnerRadius = 100, asteroidBeltOuterRadius = 180, asteroidBeltHeight = 10,
      pauseSimulation = False, glCalls = []\<rparr>"

text \<open>
  A small generator to run the model on: the state is a counter, and a draw from
  \<open>[a, b)\<close> is \<open>a\<close> plus a quarter of the width for each unit of the counter modulo 4.
\<close>

definition counterRandom :: "nat random_lib" where
  "counterRandom =
     \<lparr>mt19937 = (\<lambda>seed. seed),
      uniform_real = (\<lambda>a b g. (a + (b - a) * (real (g mod 4) / 4), Suc g))\<rparr>"

text \<open>
  The scene at program start (no asteroids), and a scene rebuilt with two asteroids and
  both instance buffers created.
\<close>

definition startScene :: globals where
  "startScene = initializeCelestialBodies counterRandom 0 startGlobals"

definition beltScene :: globals where
  "beltScene =
     initializeCelestialBodies counterRandom 0
       (startGlobals\<lparr>asteroidAmount := 2, asteroidInstanceVBO := 1,
                      asteroidNormalInstanceVBO := 2\<rparr>)"

text \<open>A store of two bodies, the first static, with no asteroids configured.\<close>

definition anchoredScene :: globals where
  "anchoredScene =
     startGlobals\<lparr>celestialBodies :=
       [bodyAt (0, 0, 0) 5 True False, bodyAt (1, 0, 0) 1 False False]\<rparr>"

section \<open>Properties\<close>

subsection \<open>The force phase, body by body\<close>

lemma frame_applyForce: "frame (applyForce f b) = frame b"
  by (simp add: frame_def applyForce_def)

lemma frame_eq_fields:
  "frame b = frame b' \<Longrightarrow>
     position b = position b' \<and> velocity b = velocity b' \<and> mass b = mass b' \<and>
     radiusScale b = radiusScale b' \<and> orientation b = orientation b' \<and>
     isStatic b = isStatic b' \<and> isAsteroid b = isAsteroid b' \<and>
     modelMatrix b = modelMatrix b' \<and> type b = type b' \<and>
     modelPtr b = modelPtr b' \<and> meshPtr b = meshPtr b'"
  unfolding frame_def
  by (cases b, cases b') simp

lemma force_vec_frame:
  "frame bi = frame bi' \<Longrightarrow> frame bj = frame bj' \<Longrightarrow> force_vec G bi bj = force_vec G bi' bj'"
  using frame_eq_fields[of bi bi'] frame_eq_fields[of bj bj']
  by (simp add: force_vec_def)

lemma length_pairStep: "length (pairStep G i j bs) = length bs"
  by (simp add: pairStep_def)

lemma pairStep_other: "k \<noteq> i \<Longrightarrow> pairStep G i j bs ! k = bs ! k"
  by (simp add: pairStep_def)

lemma map_update_same: "(map f xs)[i := f (xs ! i)] = map f xs"
  by (metis list_update_id map_update)

lemma frame_pairStep: "map frame (pairStep G i j bs) = map frame bs"
  by (simp add: pairStep_def map_update frame_applyForce map_update_same)

lemma frame_fold_pairStep: "map frame (fold (pairStep G i) js bs) = map frame bs"
  by (induction js arbitrary: bs) (simp_all add: frame_pairStep)

lemma fold_pairStep_other: "k \<noteq> i \<Longrightarrow> fold (pairStep G i) js bs ! k = bs ! k"
  by (induction js arbitrary: bs) (simp_all add: pairStep_other)

lemma length_fold_pairStep: "length (fold (pairStep G i) js bs) = length bs"
  by (induction js arbitrary: bs) (simp_all add: length_pairStep)

lemma isAsteroid_applyForce: "isAsteroid (applyForce f b) = isAsteroid b"
  by (simp add: applyForce_def)

text \<open>The inner loop changes element i only, as accumulate does.\<close>

lemma fold_pairStep_nth:
  "i < length bs \<Longrightarrow> fold (pairStep G i) js bs ! i = accumulate G bs i js (bs ! i)"
proof (induction js arbitrary: bs)
  case Nil
  then show ?case by (simp add: accumulate_def)
next
  case (Cons j js)
  let ?bs1 = "pairStep G i j bs"
  have len: "i < length ?bs1" using Cons.prems by (simp add: length_pairStep)
  have other: "\<And>k. k \<noteq> i \<Longrightarrow> ?bs1 ! k = bs ! k" by (simp add: pairStep_other)
  have acc_eq: "accumulate G ?bs1 i js b = accumulate G bs i js b" for b
    unfolding accumulate_def
    by (rule arg_cong[where f = "\<lambda>f. fold f js b"]) (auto simp: fun_eq_iff other)
  have head: "?bs1 ! i =
      (if i = j \<or> (isAsteroid (bs ! i) \<and> isAsteroid (bs ! j)) then bs ! i
       else applyForce (force_vec G (bs ! i) (bs ! j)) (bs ! i))"
    using Cons.prems by (simp add: pairStep_def)
  have "fold (pairStep G i) (j # js) bs ! i = accumulate G ?bs1 i js (?bs1 ! i)"
    using Cons.IH[OF len] by simp
  also have "\<dots> = accumulate G bs i js (?bs1 ! i)" by (rule acc_eq)
  also have "\<dots> = accumulate G bs i (j # js) (bs ! i)"
    by (simp add: head accumulate_def)
  finally show ?case .
qed

lemma accumulate_static: "isStatic b \<Longrightarrow> accumulate G bs i js b = b"
  unfolding accumulate_def
  by (induction js) (simp_all add: applyForce_def)

lemma length_forcesOn: "length (forcesOn G i bs) = length bs"
  by (simp add: forcesOn_def length_fold_pairStep)

lemma forcesOn_other: "k \<noteq> i \<Longrightarrow> forcesOn G i bs ! k = bs ! k"
  by (simp add: forcesOn_def fold_pairStep_other)

lemma frame_forcesOn: "map frame (forcesOn G i bs) = map frame bs"
  by (simp add: forcesOn_def frame_fold_pairStep)

lemma forcesOn_nth:
  "i < length bs \<Longrightarrow> forcesOn G i bs ! i = accumulate G bs i [0..<length bs] (bs ! i)"
  by (simp add: forcesOn_def fold_pairStep_nth accumulate_static)

lemma length_fold_forcesOn: "length (fold (forcesOn G) is bs) = length bs"
  by (induction "is" arbitrary: bs) (simp_all add: length_forcesOn)

lemma frame_fold_forcesOn: "map frame (fold (forcesOn G) is bs) = map frame bs"
  by (induction "is" arbitrary: bs) (simp_all add: frame_forcesOn)

lemma fold_forcesOn_other: "k \<notin> set is \<Longrightarrow> fold (forcesOn G) is bs ! k = bs ! k"
  by (induction "is" arbitrary: bs) (auto simp: forcesOn_other)

lemma length_forcePhase: "length (forcePhase G bs) = length bs"
  by (simp add: forcePhase_def length_fold_forcesOn)

lemma frame_forcePhase: "map frame (forcePhase G bs) = map frame bs"
  by (simp add: forcePhase_def frame_fold_forcesOn)

lemma frame_nth:
  "map frame bs' = map frame bs \<Longrightarrow> k < length bs \<Longrightarrow> frame (bs' ! k) = frame (bs ! k)"
  by (metis length_map nth_map)

text \<open>accumulate reads the other bodies only through their frames.\<close>

lemma accumulate_cong:
  assumes "\<And>j. j \<in> set js \<Longrightarrow> j \<noteq> i \<Longrightarrow> frame (bs' ! j) = frame (bs ! j)"
  shows "accumulate G bs' i js b = accumulate G bs i js b"
  using assms
proof (induction js arbitrary: b)
  case Nil
  then show ?case by (simp add: accumulate_def)
next
  case (Cons j js)
  have step: "(if i = j \<or> (isAsteroid b \<and> isAsteroid (bs' ! j)) then b
               else applyForce (force_vec G b (bs' ! j)) b) =
              (if i = j \<or> (isAsteroid b \<and> isAsteroid (bs ! j)) then b
               else applyForce (force_vec G b (bs ! j)) b)"
  proof (cases "i = j")
    case True
    then show ?thesis by simp
  next
    case False
    then have fr: "frame (bs' ! j) = frame (bs ! j)" using Cons.prems by simp
    then have "isAsteroid (bs' ! j) = isAsteroid (bs ! j)"
      using frame_eq_fields by blast
    moreover have "force_vec G b (bs' ! j) = force_vec G b (bs ! j)"
      using force_vec_frame[OF refl fr] .
    ultimately show ?thesis by simp
  qed
  have "accumulate G bs' i (j # js) b =
        accumulate G bs' i js (if i = j \<or> (isAsteroid b \<and> isAsteroid (bs' ! j)) then b
               else applyForce (force_vec G b (bs' ! j)) b)"
    by (simp add: accumulate_def)
  also have "\<dots> = accumulate G bs i js (if i = j \<or> (isAsteroid b \<and> isAsteroid (bs' ! j)) then b
               else applyForce (force_vec G b (bs' ! j)) b)"
    using Cons.IH Cons.prems by simp
  also have "\<dots> = accumulate G bs i (j # js) b"
    by (simp only: step) (simp add: accumulate_def)
  finally show ?case .
qed

text \<open>The whole first loop nest, element by element.\<close>

lemma forcePhase_nth:
  assumes "i < length bs"
  shows "forcePhase G bs ! i = accumulate G bs i [0..<length bs] (bs ! i)"
proof -
  let ?n = "length bs"
  let ?bs1 = "fold (forcesOn G) [0..<i] bs"
  let ?bs2 = "forcesOn G i ?bs1"
  have split: "[0..<?n] = [0..<i] @ i # [Suc i..<?n]"
    using assms by (metis less_imp_le_nat upt_add_eq_append upt_conv_Cons le0 le_add_diff_inverse)
  have len1: "length ?bs1 = ?n" by (simp add: length_fold_forcesOn)
  have fr1: "map frame ?bs1 = map frame bs" by (simp add: frame_fold_forcesOn)
  have at1: "?bs1 ! i = bs ! i" by (simp add: fold_forcesOn_other)
  have "forcePhase G bs ! i = fold (forcesOn G) [Suc i..<?n] ?bs2 ! i"
    unfolding forcePhase_def by (subst split) simp
  also have "\<dots> = ?bs2 ! i" by (simp add: fold_forcesOn_other)
  also have "\<dots> = accumulate G ?bs1 i [0..<?n] (?bs1 ! i)"
    using forcesOn_nth[of i ?bs1 G] assms len1 by simp
  also have "\<dots> = accumulate G bs i [0..<?n] (bs ! i)"
    unfolding at1
    by (rule accumulate_cong) (simp add: frame_nth[OF fr1])
  finally show ?thesis .
qed

lemma softened_pos: "0 < sqrt (max x (1 / 10000 :: real))"
  by (simp add: max_def)

lemma force_vec_softened:
  "force_vec G bi bj =
     (let r = vec3_sub (position bj) (position bi)
      in times_vec3 (G * mass bi * mass bj / max (dot r r) (1 / 10000)) (softened_direction r))"
proof -
  have m: "(if x < 1 / 10000 then 1 / 10000 else x) = max x (1 / 10000)" for x :: real
    by (simp add: max_def)
  show ?thesis
    unfolding force_vec_def softened_direction_def Let_def m
    using softened_pos by simp
qed

lemma applyForce_softened:
  "\<not> isStatic b \<Longrightarrow> mass b \<noteq> 0 \<Longrightarrow>
   applyForce (force_vec G b bj) b =
     b\<lparr>acceleration := vec3_add (acceleration b) (softened_contribution G b bj)\<rparr>"
  by (simp add: applyForce_def softened_contribution_def force_vec_softened Let_def)

lemma softened_contribution_acc [simp]:
  "softened_contribution G (b\<lparr>acceleration := a\<rparr>) bj = softened_contribution G b bj"
  by (simp add: softened_contribution_def)

lemma accumulate_sum:
  assumes "\<not> isStatic b" "mass b \<noteq> 0"
  shows "accumulate G bs i js b =
     b\<lparr>acceleration :=
         fold (\<lambda>j a. if j = i \<or> (isAsteroid b \<and> isAsteroid (bs ! j)) then a
                      else vec3_add a (softened_contribution G b (bs ! j))) js (acceleration b)\<rparr>"
  using assms
proof (induction js arbitrary: b)
  case Nil
  then show ?case by (simp add: accumulate_def)
next
  case (Cons j js)
  show ?case
  proof (cases "j = i \<or> (isAsteroid b \<and> isAsteroid (bs ! j))")
    case True
    then have "accumulate G bs i (j # js) b = accumulate G bs i js b"
      by (auto simp: accumulate_def)
    then show ?thesis using Cons.IH[OF Cons.prems] True by auto
  next
    case False
    let ?b1 = "b\<lparr>acceleration := vec3_add (acceleration b) (softened_contribution G b (bs ! j))\<rparr>"
    have "accumulate G bs i (j # js) b = accumulate G bs i js ?b1"
      using False applyForce_softened[OF Cons.prems] by (auto simp: accumulate_def)
    moreover have "\<not> isStatic ?b1" "mass ?b1 \<noteq> 0" using Cons.prems by simp_all
    ultimately show ?thesis using Cons.IH[of ?b1] False by (auto cong: if_cong)
  qed
qed

lemma accumulate_excluded: "isStatic b \<or> mass b = 0 \<Longrightarrow> accumulate G bs i js b = b"
  unfolding accumulate_def
  by (induction js) (simp_all add: applyForce_def)

lemma forcePhase_acceleration:
  assumes "i < length bs"
  shows "acceleration (forcePhase G bs ! i) =
     (if isStatic (bs ! i) \<or> mass (bs ! i) = 0 then acceleration (bs ! i)
      else fold (\<lambda>j a. if j = i \<or> (isAsteroid (bs ! i) \<and> isAsteroid (bs ! j)) then a
                        else vec3_add a (softened_contribution G (bs ! i) (bs ! j)))
             [0..<length bs] (acceleration (bs ! i)))"
proof (cases "isStatic (bs ! i) \<or> mass (bs ! i) = 0")
  case True
  then show ?thesis using assms by (simp add: forcePhase_nth accumulate_excluded)
next
  case False
  then show ?thesis using assms by (simp add: forcePhase_nth accumulate_sum)
qed

lemma accumulate_asteroid:
  assumes "isAsteroid b" "isAsteroid (bs ! i)"
  shows "accumulate G bs i js b =
     fold (\<lambda>bj b. applyForce (force_vec G b bj) b)
       (filter (\<lambda>bj. \<not> isAsteroid bj) (map (\<lambda>j. bs ! j) js)) b"
  using assms(1)
proof (induction js arbitrary: b)
  case Nil
  then show ?case by (simp add: accumulate_def)
next
  case (Cons j js)
  show ?case
  proof (cases "isAsteroid (bs ! j)")
    case True
    then have "accumulate G bs i (j # js) b = accumulate G bs i js b"
      using Cons.prems by (simp add: accumulate_def)
    then show ?thesis using Cons.IH[OF Cons.prems] True by simp
  next
    case False
    then have ne: "i \<noteq> j" using assms(2) by auto
    let ?b1 = "applyForce (force_vec G b (bs ! j)) b"
    have "accumulate G bs i (j # js) b = accumulate G bs i js ?b1"
      using False ne by (simp add: accumulate_def)
    moreover have "isAsteroid ?b1" using Cons.prems by (simp add: isAsteroid_applyForce)
    ultimately show ?thesis using Cons.IH[of ?b1] False by simp
  qed
qed

lemma forcePhase_static:
  "i < length bs \<Longrightarrow> isStatic (bs ! i) \<Longrightarrow> forcePhase G bs ! i = bs ! i"
  by (simp add: forcePhase_nth accumulate_excluded)

lemma sqrt_small:
  "sqrt (1 / 10000) = 1 / 100" "sqrt (1 / 1000000) = 1 / 1000"
  by (rule real_sqrt_unique; simp add: power2_eq_square)+

lemma sqrt_4900: "sqrt 4900 = 70"
  by (rule real_sqrt_unique) simp_all

lemma newCelestialBody_fields [simp]:
  "position (newCelestialBody pos vel m rs mo me q st a t) = pos"
  "velocity (newCelestialBody pos vel m rs mo me q st a t) = vel"
  "acceleration (newCelestialBody pos vel m rs mo me q st a t) = vec3_zero"
  "mass (newCelestialBody pos vel m rs mo me q st a t) = m"
  "radiusScale (newCelestialBody pos vel m rs mo me q st a t) = rs"
  "orientation (newCelestialBody pos vel m rs mo me q st a t) = q"
  "isStatic (newCelestialBody pos vel m rs mo me q st a t) = st"
  "isAsteroid (newCelestialBody pos vel m rs mo me q st a t) = a"
  by (simp_all add: newCelestialBody_def updateModelMatrix_def Let_def)

lemma bodyAt_fields [simp]:
  "position (bodyAt pos m st a) = pos"
  "velocity (bodyAt pos m st a) = (0, 0, 0)"
  "acceleration (bodyAt pos m st a) = (0, 0, 0)"
  "mass (bodyAt pos m st a) = m"
  "isStatic (bodyAt pos m st a) = st"
  "isAsteroid (bodyAt pos m st a) = a"
  by (simp_all add: bodyAt_def vec3_zero_def)

subsection \<open>The integration and publish loop\<close>

lemma update_fields [simp]:
  "isAsteroid (update dt b) = isAsteroid b"
  "isStatic (update dt b) = isStatic b"
  "mass (update dt b) = mass b"
  "radiusScale (update dt b) = radiusScale b"
  "orientation (update dt b) = orientation b"
  "acceleration (update dt b) = vec3_zero"
  by (simp_all add: update_def updateModelMatrix_def Let_def)

lemma update_static:
  "isStatic b \<Longrightarrow> position (update dt b) = position b \<and> velocity (update dt b) = velocity b"
  by (simp add: update_def updateModelMatrix_def Let_def)

lemma update_moving:
  "\<not> isStatic b \<Longrightarrow>
     velocity (update dt b) = vec3_add (velocity b) (vec3_times (acceleration b) dt) \<and>
     position (update dt b) = vec3_add (position b) (vec3_times (velocity (update dt b)) dt)"
  by (simp add: update_def updateModelMatrix_def Let_def)

lemma update_modelMatrix:
  "modelMatrix (update dt b) =
     mat4_mul (mat4_mul (translate mat4_identity (position (update dt b)))
                        (mat4_cast (orientation (update dt b))))
       (scale mat4_identity
          (radiusScale (update dt b), radiusScale (update dt b), radiusScale (update dt b)))"
  by (simp add: update_def updateModelMatrix_def Let_def)

lemma fold_bind_None: "fold (\<lambda>i r. Option.bind r (f i)) is None = None"
  by (induction "is") simp_all

lemma publishStep_bodies:
  "publishStep dt amt i (bs, idx, M, N) = Some (bs', idx', M', N') \<Longrightarrow>
     bs' = bs[i := update dt (bs ! i)]"
  by (auto simp: publishStep_def Let_def split: if_splits option.splits)

lemma fold_publish_bodies:
  "fold (\<lambda>i r. Option.bind r (publishStep dt amt i)) is (Some (bs, idx, M, N))
     = Some (bs', idx', M', N') \<Longrightarrow>
   bs' = fold (\<lambda>i bs. bs[i := update dt (bs ! i)]) is bs"
proof (induction "is" arbitrary: bs idx M N)
  case Nil
  then show ?case by simp
next
  case (Cons i "is")
  show ?case
  proof (cases "publishStep dt amt i (bs, idx, M, N)")
    case None
    then show ?thesis using Cons.prems by (simp add: fold_bind_None)
  next
    case (Some st)
    obtain bs1 idx1 M1 N1 where st: "st = (bs1, idx1, M1, N1)" by (cases st) auto
    have "bs1 = bs[i := update dt (bs ! i)]"
      using Some st publishStep_bodies by blast
    moreover have "bs' = fold (\<lambda>i bs. bs[i := update dt (bs ! i)]) is bs1"
      using Cons.IH[of bs1 idx1 M1 N1] Cons.prems Some st by simp
    ultimately show ?thesis by simp
  qed
qed

lemma fold_update_prefix:
  "n \<le> length bs \<Longrightarrow>
     fold (\<lambda>i bs. bs[i := g (bs ! i)]) [0..<n] bs = map g (take n bs) @ drop n bs"
proof (induction n)
  case 0
  then show ?case by simp
next
  case (Suc n)
  then have n: "n < length bs" by simp
  have "fold (\<lambda>i bs. bs[i := g (bs ! i)]) [0..<Suc n] bs =
        (map g (take n bs) @ drop n bs)[n := g ((map g (take n bs) @ drop n bs) ! n)]"
    using Suc by simp
  also have "(map g (take n bs) @ drop n bs) ! n = bs ! n"
    using n by (simp add: nth_append)
  also have "(map g (take n bs) @ drop n bs)[n := g (bs ! n)] =
             map g (take n bs) @ (drop n bs)[0 := g (bs ! n)]"
    using n by (simp add: list_update_append)
  also have "(drop n bs)[0 := g (bs ! n)] = g (bs ! n) # drop (Suc n) bs"
    using n by (simp add: Cons_nth_drop_Suc[symmetric])
  also have "map g (take n bs) @ g (bs ! n) # drop (Suc n) bs =
             map g (take (Suc n) bs) @ drop (Suc n) bs"
    using n by (simp add: take_Suc_conv_app_nth)
  finally show ?case .
qed

lemma publishLoop_bodies:
  assumes "publishLoop dt amt (bs, idx, M, N) = Some (bs', idx', M', N')"
  shows "bs' = map (update dt) bs"
  using fold_publish_bodies[OF assms[unfolded publishLoop_def fst_conv]]
  by (simp add: fold_update_prefix)

lemma length_overwrite: "length xs \<le> length a \<Longrightarrow> length (overwrite xs a) = length a"
  by (simp add: overwrite_def)

lemma overwrite_write:
  assumes "length xs < length a"
  shows "(overwrite xs a)[length xs := Some v] = overwrite (xs @ [v]) a"
proof -
  have "(overwrite xs a)[length xs := Some v] = map Some xs @ (drop (length xs) a)[0 := Some v]"
    by (simp add: overwrite_def list_update_append)
  also have "(drop (length xs) a)[0 := Some v] = Some v # drop (Suc (length xs)) a"
    using assms by (simp add: Cons_nth_drop_Suc[symmetric])
  finally show ?thesis by (simp add: overwrite_def)
qed

lemma writeSlot_overwrite:
  "length xs < length a \<Longrightarrow>
     writeSlot (Some (overwrite xs a)) (length xs) v = Some (overwrite (xs @ [v]) a)"
  by (simp add: writeSlot_def length_overwrite overwrite_write)

lemma publishStep_at:
  assumes "bs1 ! n = b" "bs1[n := update dt b] = bs2" "bs2 ! n = update dt b"
  shows "publishStep dt amt n (bs1, k, M, N) =
     (if isAsteroid b \<and> k < amt
      then (case writeSlot M k (modelMatrix (update dt b)) of
              None \<Rightarrow> None
            | Some M' \<Rightarrow>
                (case writeSlot N k
                        (transpose_mat3 (inverse_mat3 (mat3_of_mat4 (modelMatrix (update dt b))))) of
                   None \<Rightarrow> None
                 | Some N' \<Rightarrow> Some (bs2, k + 1, Some M', Some N')))
      else Some (bs2, k, M, N))"
  using assms by (auto simp: publishStep_def Let_def split: option.splits)

lemma prefix_step:
  assumes "n < length bs"
  shows "(map g (take n bs) @ drop n bs) ! n = bs ! n"
    and "(map g (take n bs) @ drop n bs)[n := g (bs ! n)] = map g (take (Suc n) bs) @ drop (Suc n) bs"
    and "(map g (take (Suc n) bs) @ drop (Suc n) bs) ! n = g (bs ! n)"
  using assms
  by (simp_all add: nth_append list_update_append Cons_nth_drop_Suc[symmetric]
        take_Suc_conv_app_nth)

lemma publish_prefix:
  assumes "amt \<le> length a" "amt \<le> length c" "n \<le> length bs"
  shows "fold (\<lambda>i r. Option.bind r (publishStep dt amt i)) [0..<n] (Some (bs, 0, Some a, Some c)) =
     Some (map (update dt) (take n bs) @ drop n bs,
           length (take amt (filter isAsteroid (map (update dt) (take n bs)))),
           Some (overwrite (map modelMatrix
                   (take amt (filter isAsteroid (map (update dt) (take n bs))))) a),
           Some (overwrite (map (\<lambda>b. transpose_mat3 (inverse_mat3 (mat3_of_mat4 (modelMatrix b))))
                   (take amt (filter isAsteroid (map (update dt) (take n bs))))) c))"
  using assms(3)
proof (induction n)
  case 0
  then show ?case by (simp add: overwrite_def)
next
  case (Suc n)
  then have n: "n < length bs" by simp
  define nm :: "CelestialBody \<Rightarrow> mat3"
    where "nm = (\<lambda>b. transpose_mat3 (inverse_mat3 (mat3_of_mat4 (modelMatrix b))))"
  define ys where "ys = filter isAsteroid (map (update dt) (take n bs))"
  define ys' where "ys' = filter isAsteroid (map (update dt) (take (Suc n) bs))"
  define x where "x = update dt (bs ! n)"
  define bs1 where "bs1 = map (update dt) (take n bs) @ drop n bs"
  define bs2 where "bs2 = map (update dt) (take (Suc n) bs) @ drop (Suc n) bs"
  have ys'_eq: "ys' = (if isAsteroid x then ys @ [x] else ys)"
    using n by (simp add: ys'_def ys_def x_def take_Suc_conv_app_nth)
  have ax: "isAsteroid x = isAsteroid (bs ! n)" by (simp add: x_def)
  have IH: "fold (\<lambda>i r. Option.bind r (publishStep dt amt i)) [0..<n] (Some (bs, 0, Some a, Some c)) =
      Some (bs1, length (take amt ys), Some (overwrite (map modelMatrix (take amt ys)) a),
            Some (overwrite (map nm (take amt ys)) c))"
    using Suc by (simp add: bs1_def ys_def nm_def)
  have pstep: "publishStep dt amt n (bs1, k, M, N) =
     (if isAsteroid x \<and> k < amt
      then (case writeSlot M k (modelMatrix x) of
              None \<Rightarrow> None
            | Some M' \<Rightarrow>
                (case writeSlot N k (nm x) of
                   None \<Rightarrow> None
                 | Some N' \<Rightarrow> Some (bs2, k + 1, Some M', Some N')))
      else Some (bs2, k, M, N))" for k M N
    using publishStep_at[where ?bs1.0 = bs1 and n = n and b = "bs ! n" and dt = dt
            and ?bs2.0 = bs2 and amt = amt and k = k and M = M and N = N]
          prefix_step[OF n, of "update dt"]
    by (simp add: x_def nm_def bs1_def bs2_def cong: option.case_cong)
  have step: "fold (\<lambda>i r. Option.bind r (publishStep dt amt i)) [0..<Suc n] (Some (bs, 0, Some a, Some c)) =
      publishStep dt amt n (bs1, length (take amt ys), Some (overwrite (map modelMatrix (take amt ys)) a),
            Some (overwrite (map nm (take amt ys)) c))"
    using IH by simp
  have goal: "publishStep dt amt n (bs1, length (take amt ys),
                Some (overwrite (map modelMatrix (take amt ys)) a),
                Some (overwrite (map nm (take amt ys)) c)) =
      Some (bs2, length (take amt ys'), Some (overwrite (map modelMatrix (take amt ys')) a),
            Some (overwrite (map nm (take amt ys')) c))"
  proof (cases "isAsteroid x \<and> length (take amt ys) < amt")
    case True
    then have short: "length ys < amt" by auto
    then have ws: "take amt ys = ys" by simp
    have ws': "take amt ys' = ys @ [x]" using short True by (simp add: ys'_eq)
    have la: "length (map modelMatrix ys) < length a" using short assms(1) by simp
    have lc: "length (map nm ys) < length c" using short assms(2) by simp
    have w1: "writeSlot (Some (overwrite (map modelMatrix ys) a)) (length ys) (modelMatrix x)
          = Some (overwrite (map modelMatrix (ys @ [x])) a)"
      using writeSlot_overwrite[OF la, of "modelMatrix x"] by simp
    have w2: "writeSlot (Some (overwrite (map nm ys) c)) (length ys) (nm x)
          = Some (overwrite (map nm (ys @ [x])) c)"
      using writeSlot_overwrite[OF lc, of "nm x"] by simp
    show ?thesis
      unfolding pstep ws ws' using True short by (simp add: w1 w2)
  next
    case False
    have eq: "take amt ys' = take amt ys"
    proof (cases "isAsteroid x")
      case True
      then have "amt \<le> length ys" using False by auto
      then show ?thesis using True by (simp add: ys'_eq)
    next
      case False
      then show ?thesis by (simp add: ys'_eq)
    qed
    have nf: "(isAsteroid x \<and> length (take amt ys) < amt) = False" using False by blast
    show ?thesis unfolding pstep nf eq by (simp only: if_False)
  qed
  show ?case
    unfolding step goal by (simp add: bs2_def ys'_def nm_def)
qed

lemma publish_none:
  assumes "n \<le> length bs"
  shows "fold (\<lambda>i r. Option.bind r (publishStep dt 0 i)) [0..<n] (Some (bs, 0, M, N)) =
     Some (map (update dt) (take n bs) @ drop n bs, 0, M, N)"
  using assms
proof (induction n)
  case 0
  then show ?case by simp
next
  case (Suc n)
  then have n: "n < length bs" by simp
  have upd: "(map (update dt) (take n bs) @ drop n bs)[n := update dt ((map (update dt) (take n bs) @ drop n bs) ! n)]
      = map (update dt) (take (Suc n) bs) @ drop (Suc n) bs"
    using n by (simp add: nth_append list_update_append Cons_nth_drop_Suc[symmetric] take_Suc_conv_app_nth)
  show ?case using Suc upd by (simp add: publishStep_def Let_def)
qed

lemma take_overwrite: "take (length xs) (overwrite xs a) = map Some xs"
  by (simp add: overwrite_def)

lemma overwrite_all: "length xs = length a \<Longrightarrow> overwrite xs a = map Some xs"
  by (simp add: overwrite_def)

subsection \<open>The whole step\<close>

lemma updatePhysics_skip:
  "pauseSimulation s \<or> dt * simulationSpeed s = 0 \<Longrightarrow> updatePhysics dt s = Some s"
  by (auto simp: updatePhysics_def)

lemma updatePhysics_bodies:
  assumes "updatePhysics dt s = Some s'" "\<not> pauseSimulation s" "dt * simulationSpeed s \<noteq> 0"
  shows "celestialBodies s' =
     map (update (dt * simulationSpeed s)) (forcePhase (G_scaled s) (celestialBodies s))"
proof -
  obtain bs' idx M N where
    loop: "publishLoop (dt * simulationSpeed s) (asteroidAmount s)
             (forcePhase (G_scaled s) (celestialBodies s), 0,
              asteroidModelMatrices s, asteroidNormalMatrices s) = Some (bs', idx, M, N)"
    using assms by (auto simp: updatePhysics_def Let_def split: option.splits)
  have "celestialBodies s' = bs'"
    using assms loop
    by (auto simp: updatePhysics_def Let_def split: option.splits if_splits)
  then show ?thesis using publishLoop_bodies[OF loop] by simp
qed

lemma updatePhysics_controls:
  assumes "updatePhysics dt s = Some s'"
  shows "pauseSimulation s' = pauseSimulation s \<and> simulationSpeed s' = simulationSpeed s
         \<and> G_scaled s' = G_scaled s \<and> asteroidAmount s' = asteroidAmount s"
  using assms
  by (auto simp: updatePhysics_def Let_def split: option.splits if_splits)

lemma updatePhysics_static:
  assumes "updatePhysics dt s = Some s'" "i < length (celestialBodies s)"
    "isStatic (celestialBodies s ! i)"
  shows "length (celestialBodies s') = length (celestialBodies s) \<and>
         isStatic (celestialBodies s' ! i) \<and>
         position (celestialBodies s' ! i) = position (celestialBodies s ! i) \<and>
         velocity (celestialBodies s' ! i) = velocity (celestialBodies s ! i) \<and>
         acceleration (celestialBodies s' ! i) =
           (if pauseSimulation s \<or> dt * simulationSpeed s = 0
            then acceleration (celestialBodies s ! i) else vec3_zero)"
proof (cases "pauseSimulation s \<or> dt * simulationSpeed s = 0")
  case True
  then have "s' = s" using assms(1) updatePhysics_skip[of s dt] by simp
  then show ?thesis using True assms by simp
next
  case False
  then have bs: "celestialBodies s' =
     map (update (dt * simulationSpeed s)) (forcePhase (G_scaled s) (celestialBodies s))"
    using updatePhysics_bodies[OF assms(1)] by simp
  have "celestialBodies s' ! i = update (dt * simulationSpeed s) (celestialBodies s ! i)"
    using assms(2,3) by (simp add: bs length_forcePhase forcePhase_static)
  then show ?thesis
    using False assms(3) by (simp add: bs length_forcePhase update_static)
qed

lemma updatePhysics_effective:
  assumes "\<not> pauseSimulation s" "dt * simulationSpeed s \<noteq> 0"
    "allocatedFor (asteroidAmount s) (asteroidModelMatrices s)"
    "allocatedFor (asteroidAmount s) (asteroidNormalMatrices s)"
  shows "updatePhysics dt s =
     (let bs' = map (update (dt * simulationSpeed s)) (forcePhase (G_scaled s) (celestialBodies s));
          ws = take (asteroidAmount s) (filter isAsteroid bs')
      in Some (s\<lparr>celestialBodies := bs',
                 asteroidModelMatrices :=
                   map_option (overwrite (map modelMatrix ws)) (asteroidModelMatrices s),
                 asteroidNormalMatrices :=
                   map_option (overwrite (map (\<lambda>b. inverse_transpose_upper3 (modelMatrix b)) ws))
                     (asteroidNormalMatrices s),
                 glCalls := glCalls s @
                   (if ws \<noteq> [] \<and> asteroidInstanceVBO s \<noteq> 0 \<and> asteroidNormalInstanceVBO s \<noteq> 0
                    then [BindBuffer (asteroidInstanceVBO s),
                          BufferSubDataMat4 0 (length ws * sizeof_mat4) (map Some (map modelMatrix ws)),
                          BindBuffer (asteroidNormalInstanceVBO s),
                          BufferSubDataMat3 0 (length ws * sizeof_mat3)
                            (map Some (map (\<lambda>b. inverse_transpose_upper3 (modelMatrix b)) ws)),
                          BindBuffer 0]
                    else [])\<rparr>))"
proof (cases "asteroidAmount s = 0")
  case True
  let ?F = "forcePhase (G_scaled s) (celestialBodies s)"
  have "publishLoop (dt * simulationSpeed s) 0 (?F, 0, asteroidModelMatrices s, asteroidNormalMatrices s)
     = Some (map (update (dt * simulationSpeed s)) ?F, 0, asteroidModelMatrices s, asteroidNormalMatrices s)"
    unfolding publishLoop_def fst_conv
    using publish_none[of "length ?F" ?F "dt * simulationSpeed s"] by simp
  moreover have "asteroidModelMatrices s = None" "asteroidNormalMatrices s = None"
    using assms(3,4) True by (auto simp: allocatedFor_def split: option.splits)
  ultimately show ?thesis
    using assms(1,2) True by (simp add: updatePhysics_def Let_def)
next
  case False
  let ?F = "forcePhase (G_scaled s) (celestialBodies s)"
  let ?bs' = "map (update (dt * simulationSpeed s)) ?F"
  let ?ws = "take (asteroidAmount s) (filter isAsteroid ?bs')"
  let ?nm = "\<lambda>b. transpose_mat3 (inverse_mat3 (mat3_of_mat4 (modelMatrix b)))"
  obtain a c where a: "asteroidModelMatrices s = Some a" "length a = asteroidAmount s"
    and c: "asteroidNormalMatrices s = Some c" "length c = asteroidAmount s"
    using assms(3,4) False by (auto simp: allocatedFor_def split: option.splits)
  have loop: "publishLoop (dt * simulationSpeed s) (asteroidAmount s) (?F, 0, Some a, Some c)
     = Some (?bs', length ?ws, Some (overwrite (map modelMatrix ?ws) a),
             Some (overwrite (map ?nm ?ws) c))"
    unfolding publishLoop_def fst_conv
    using publish_prefix[of "asteroidAmount s" a c "length ?F" ?F "dt * simulationSpeed s"] a c
    by simp
  have nm: "?nm = (\<lambda>b. inverse_transpose_upper3 (modelMatrix b))"
    by (simp add: inverse_transpose_upper3_def)
  have t1: "take (length ?ws) (overwrite (map modelMatrix ?ws) a) = map Some (map modelMatrix ?ws)"
    using take_overwrite[of "map modelMatrix ?ws" a] by simp
  have t2: "take (length ?ws) (overwrite (map ?nm ?ws) c) = map Some (map ?nm ?ws)"
    using take_overwrite[of "map ?nm ?ws" c] by simp
  show ?thesis
  proof (cases "?ws = []")
    case True
    then show ?thesis
      using assms(1,2) False a c loop
      by (simp add: updatePhysics_def Let_def nm del: take_eq_Nil)
  next
    case nonempty: False
    then have "0 < length ?ws" by blast
    then show ?thesis
      using assms(1,2) False a c loop nonempty t1 t2
      by (simp add: updatePhysics_def Let_def nm del: take_eq_Nil length_take)
  qed
qed

lemma updatePhysics_defined:
  assumes "allocatedFor (asteroidAmount s) (asteroidModelMatrices s)"
    and "allocatedFor (asteroidAmount s) (asteroidNormalMatrices s)"
  shows "\<exists>s'. updatePhysics dt s = Some s' \<and>
     allocatedFor (asteroidAmount s') (asteroidModelMatrices s') \<and>
     allocatedFor (asteroidAmount s') (asteroidNormalMatrices s')"
proof (cases "pauseSimulation s \<or> dt * simulationSpeed s = 0")
  case True
  then show ?thesis using updatePhysics_skip[of s dt] assms by auto
next
  case False
  show ?thesis
    using updatePhysics_effective[OF _ _ assms, of dt] False assms
    by (auto simp: Let_def allocatedFor_def length_overwrite split: option.splits)
qed

lemma updatePhysicsN_defined:
  assumes "allocatedFor (asteroidAmount s) (asteroidModelMatrices s)"
    and "allocatedFor (asteroidAmount s) (asteroidNormalMatrices s)"
  shows "\<exists>s'. updatePhysicsN dts s = Some s'"
  using assms
proof (induction dts arbitrary: s)
  case Nil
  then show ?case by simp
next
  case (Cons dt dts)
  obtain s1 where s1: "updatePhysics dt s = Some s1"
    "allocatedFor (asteroidAmount s1) (asteroidModelMatrices s1)"
    "allocatedFor (asteroidAmount s1) (asteroidNormalMatrices s1)"
    using updatePhysics_defined[OF Cons.prems] by blast
  then show ?case using Cons.IH[OF s1(2,3)] by simp
qed

lemma the_Some: "\<exists>y. x = Some y \<Longrightarrow> x = Some (the x)"
  by auto

lemma ex_Some_the: "\<exists>y. x = Some y \<and> Q y \<Longrightarrow> x = Some (the x) \<and> Q (the x)"
  by auto

lemma isAsteroid_frame: "map frame bs' = map frame bs \<Longrightarrow> map isAsteroid bs' = map isAsteroid bs"
proof -
  assume "map frame bs' = map frame bs"
  then have "map (isAsteroid \<circ> frame) bs' = map (isAsteroid \<circ> frame) bs"
    by (metis map_map)
  moreover have "isAsteroid \<circ> frame = isAsteroid" by (auto simp: frame_def)
  ultimately show ?thesis by simp
qed

lemma count_by_flags: "length (filter P xs) = length (filter id (map P xs))"
  by (induction xs) simp_all

lemma stepped_count:
  "length (filter isAsteroid (map (update dt) (forcePhase G bs))) = length (filter isAsteroid bs)"
proof -
  have "map isAsteroid (map (update dt) (forcePhase G bs)) = map isAsteroid (forcePhase G bs)"
    by simp
  also have "\<dots> = map isAsteroid bs" by (rule isAsteroid_frame) (rule frame_forcePhase)
  finally show ?thesis using count_by_flags[of isAsteroid] by metis
qed

lemma take_min_length: "take n xs = take (min (length xs) n) xs"
  by (simp add: min_def)

subsection \<open>The rebuild\<close>

lemma newAsteroid_flags:
  "isAsteroid (fst (newAsteroid L s g)) \<and> \<not> isStatic (fst (newAsteroid L s g))"
  by (simp add: newAsteroid_def Let_def split_beta)

lemma asteroidLoop_shape:
  "\<exists>as. asteroidLoop L s n g bs = bs @ as \<and> length as = n \<and>
        (\<forall>a\<in>set as. isAsteroid a \<and> \<not> isStatic a)"
proof (induction n arbitrary: g bs)
  case 0
  then show ?case by simp
next
  case (Suc n)
  obtain b g' where bg: "newAsteroid L s g = (b, g')" by (cases "newAsteroid L s g") auto
  have fl: "isAsteroid b \<and> \<not> isStatic b" using newAsteroid_flags[of L s g] bg by simp
  obtain as where as: "asteroidLoop L s n g' (bs @ [b]) = (bs @ [b]) @ as" "length as = n"
      "\<forall>a\<in>set as. isAsteroid a \<and> \<not> isStatic a"
    using Suc[of g' "bs @ [b]"] by blast
  have "asteroidLoop L s (Suc n) g bs = bs @ (b # as)" using bg as(1) by simp
  moreover have "length (b # as) = Suc n" using as(2) by simp
  moreover have "\<forall>a\<in>set (b # as). isAsteroid a \<and> \<not> isStatic a" using fl as(3) by simp
  ultimately show ?case by blast
qed

lemma init_shape:
  "\<exists>as. celestialBodies (initializeCelestialBodies L seed s) =
       newCelestialBody (0, 0, 0) (0, 0, 0) (sunMass s) (sunRadiusScale s) None SphereMesh
         \<lparr>qw = 1, qx = 0, qy = 0, qz = 0\<rparr> False False 0
     # newCelestialBody
         (planetOrbitRadius s * cos (radians (planetInitialAngle s)), 0,
          planetOrbitRadius s * sin (radians (planetInitialAngle s)))
         (- (if sunMass s > 0 \<and> planetOrbitRadius s > 0
             then sqrt ((G_scaled s * sunMass s) / planetOrbitRadius s) else 0)
            * sin (radians (planetInitialAngle s)), 0,
          (if sunMass s > 0 \<and> planetOrbitRadius s > 0
           then sqrt ((G_scaled s * sunMass s) / planetOrbitRadius s) else 0)
            * cos (radians (planetInitialAngle s)))
         (planetMass s) (planetRadiusScale s) (planetModelPtr s) NullMesh
         (angleAxis (radians 0) (0, 1, 0)) False False 1
     # as
     \<and> length as = asteroidAmount s \<and> (\<forall>a\<in>set as. isAsteroid a \<and> \<not> isStatic a)"
proof -
  let ?sun = "newCelestialBody (0, 0, 0) (0, 0, 0) (sunMass s) (sunRadiusScale s) None SphereMesh
         \<lparr>qw = 1, qx = 0, qy = 0, qz = 0\<rparr> False False 0"
  let ?planet = "newCelestialBody
         (planetOrbitRadius s * cos (radians (planetInitialAngle s)), 0,
          planetOrbitRadius s * sin (radians (planetInitialAngle s)))
         (- (if sunMass s > 0 \<and> planetOrbitRadius s > 0
             then sqrt ((G_scaled s * sunMass s) / planetOrbitRadius s) else 0)
            * sin (radians (planetInitialAngle s)), 0,
          (if sunMass s > 0 \<and> planetOrbitRadius s > 0
           then sqrt ((G_scaled s * sunMass s) / planetOrbitRadius s) else 0)
            * cos (radians (planetInitialAngle s)))
         (planetMass s) (planetRadiusScale s) (planetModelPtr s) NullMesh
         (angleAxis (radians 0) (0, 1, 0)) False False 1"
  have "\<exists>s2. celestialBodies (initializeCelestialBodies L seed s) =
          asteroidLoop L s2 (asteroidAmount s) (mt19937 L seed) [?sun, ?planet]"
  proof (cases "asteroidAmount s > 0")
    case True
    then show ?thesis
      by (intro exI) (simp add: initializeCelestialBodies_def Let_def)
  next
    case False
    then show ?thesis
      by (intro exI) (simp add: initializeCelestialBodies_def Let_def)
  qed
  then obtain s2 where "celestialBodies (initializeCelestialBodies L seed s) =
          asteroidLoop L s2 (asteroidAmount s) (mt19937 L seed) [?sun, ?planet]" by blast
  moreover obtain as where "asteroidLoop L s2 (asteroidAmount s) (mt19937 L seed) [?sun, ?planet]
        = [?sun, ?planet] @ as"
    "length as = asteroidAmount s" "\<forall>a\<in>set as. isAsteroid a \<and> \<not> isStatic a"
    using asteroidLoop_shape[of L s2 "asteroidAmount s" "mt19937 L seed" "[?sun, ?planet]"] by blast
  ultimately show ?thesis by simp
qed

lemma init_frame:
  "asteroidAmount (initializeCelestialBodies L seed s) = asteroidAmount s \<and>
   pauseSimulation (initializeCelestialBodies L seed s) = pauseSimulation s \<and>
   simulationSpeed (initializeCelestialBodies L seed s) = simulationSpeed s \<and>
   G_scaled (initializeCelestialBodies L seed s) = G_scaled s \<and>
   asteroidInstanceVBO (initializeCelestialBodies L seed s) = asteroidInstanceVBO s \<and>
   asteroidNormalInstanceVBO (initializeCelestialBodies L seed s) = asteroidNormalInstanceVBO s \<and>
   glCalls (initializeCelestialBodies L seed s) = glCalls s"
  by (simp add: initializeCelestialBodies_def Let_def)

lemma init_arrays:
  "asteroidModelMatrices (initializeCelestialBodies L seed s) =
     (if asteroidAmount s = 0 then None else Some (replicate (asteroidAmount s) None)) \<and>
   asteroidNormalMatrices (initializeCelestialBodies L seed s) =
     (if asteroidAmount s = 0 then None else Some (replicate (asteroidAmount s) None))"
  by (simp add: initializeCelestialBodies_def Let_def)

lemma init_allocated:
  "allocatedFor (asteroidAmount (initializeCelestialBodies L seed s))
     (asteroidModelMatrices (initializeCelestialBodies L seed s)) \<and>
   allocatedFor (asteroidAmount (initializeCelestialBodies L seed s))
     (asteroidNormalMatrices (initializeCelestialBodies L seed s))"
  by (simp add: init_frame init_arrays allocatedFor_def)

lemma init_count:
  "length (filter isAsteroid (celestialBodies (initializeCelestialBodies L seed s))) = asteroidAmount s"
proof -
  obtain as sun planet where
    b: "celestialBodies (initializeCelestialBodies L seed s) = sun # planet # as"
       "\<not> isAsteroid sun" "\<not> isAsteroid planet"
       "length as = asteroidAmount s" "\<forall>a\<in>set as. isAsteroid a \<and> \<not> isStatic a"
    using init_shape[of L seed s] by (metis newCelestialBody_fields(8))
  have "filter isAsteroid as = as" using b(5) by (simp add: filter_id_conv)
  then show ?thesis using b by simp
qed

lemma newAsteroid_config:
  assumes "config s = config s'"
  shows "newAsteroid L s g = newAsteroid L s' g"
proof -
  have f: "G_scaled s = G_scaled s'" "sunMass s = sunMass s'"
    "avgAsteroidMass s = avgAsteroidMass s'" "minAsteroidScale s = minAsteroidScale s'"
    "maxAsteroidScale s = maxAsteroidScale s'"
    "asteroidBeltInnerRadius s = asteroidBeltInnerRadius s'"
    "asteroidBeltOuterRadius s = asteroidBeltOuterRadius s'"
    "asteroidBeltHeight s = asteroidBeltHeight s'" "rockModelPtr s = rockModelPtr s'"
    using assms by (simp_all add: config_def)
  show ?thesis unfolding newAsteroid_def f by (rule refl)
qed

lemma asteroidLoop_config:
  assumes "config s = config s'"
  shows "asteroidLoop L s n g bs = asteroidLoop L s' n g bs"
proof (induction n arbitrary: g bs)
  case 0
  then show ?case by simp
next
  case (Suc n)
  then show ?case by (simp add: newAsteroid_config[OF assms])
qed

lemma init_config: "config (initializeCelestialBodies L seed s) = config s"
  by (simp add: config_def initializeCelestialBodies_def Let_def)

lemma startScene_bodies:
  "\<exists>sun planet. celestialBodies startScene = [sun, planet] \<and>
     position sun = (0, 0, 0) \<and> velocity sun = (0, 0, 0) \<and> acceleration sun = (0, 0, 0) \<and>
     mass sun = 20000 \<and> \<not> isStatic sun \<and> \<not> isAsteroid sun \<and>
     position planet = (70, 0, 0) \<and> mass planet = 200 \<and> \<not> isAsteroid planet"
  by (simp add: startScene_def initializeCelestialBodies_def Let_def startGlobals_def
        radians_def vec3_zero_def)

lemma startScene_controls:
  "\<not> pauseSimulation startScene \<and> simulationSpeed startScene = 1 \<and> G_scaled startScene = 1000"
  by (simp add: startScene_def init_frame startGlobals_def)

lemma startScene_step:
  "updatePhysics dt startScene = Some (the (updatePhysics dt startScene))"
proof (rule the_Some)
  show "\<exists>s'. updatePhysics dt startScene = Some s'"
    using updatePhysics_defined[of startScene dt] init_allocated[of counterRandom 0 startGlobals]
    by (auto simp: startScene_def)
qed

lemma anchoredScene_allocated:
  "allocatedFor (asteroidAmount anchoredScene) (asteroidModelMatrices anchoredScene)"
  "allocatedFor (asteroidAmount anchoredScene) (asteroidNormalMatrices anchoredScene)"
  by (simp_all add: anchoredScene_def startGlobals_def allocatedFor_def)

lemma beltScene_source:
  "\<not> pauseSimulation (startGlobals\<lparr>asteroidAmount := 2, asteroidInstanceVBO := 1,
                                       asteroidNormalInstanceVBO := 2\<rparr>) \<and>
   (1 / 60) * simulationSpeed (startGlobals\<lparr>asteroidAmount := 2, asteroidInstanceVBO := 1,
                                       asteroidNormalInstanceVBO := 2\<rparr>) \<noteq> 0"
  by (simp add: startGlobals_def)

subsection \<open>Static bodies and the sun\<close>

text \<open>
  C1, as amended: a body whose \<open>isStatic\<close> flag is set keeps its position and its
  velocity through any run of calls of \<open>updatePhysics\<close>, whatever the frame times, and
  its acceleration is zero once a call of the run has not been skipped (skipped calls,
  paused or of zero scaled time, leave the acceleration as it was).
\<close>

theorem static_body_invariant:
  assumes "updatePhysicsN dts s = Some s'"
    and "i < length (celestialBodies s)"
    and "isStatic (celestialBodies s ! i)"
  shows "position (celestialBodies s' ! i) = position (celestialBodies s ! i) \<and>
         velocity (celestialBodies s' ! i) = velocity (celestialBodies s ! i) \<and>
         acceleration (celestialBodies s' ! i) =
           (if pauseSimulation s \<or> (\<forall>dt\<in>set dts. dt * simulationSpeed s = 0)
            then acceleration (celestialBodies s ! i) else vec3_zero)"
  using assms
proof (induction dts arbitrary: s)
  case Nil
  then show ?case by simp
next
  case (Cons dt dts)
  obtain s1 where s1: "updatePhysics dt s = Some s1" and rest: "updatePhysicsN dts s1 = Some s'"
    using Cons.prems(1) by (auto split: option.splits)
  note st = updatePhysics_static[OF s1 Cons.prems(2,3)]
  note ct = updatePhysics_controls[OF s1]
  have i1: "i < length (celestialBodies s1)" using st Cons.prems(2) by simp
  have IH: "position (celestialBodies s' ! i) = position (celestialBodies s1 ! i) \<and>
         velocity (celestialBodies s' ! i) = velocity (celestialBodies s1 ! i) \<and>
         acceleration (celestialBodies s' ! i) =
           (if pauseSimulation s1 \<or> (\<forall>dt\<in>set dts. dt * simulationSpeed s1 = 0)
            then acceleration (celestialBodies s1 ! i) else vec3_zero)"
    using Cons.IH[OF rest i1] st by simp
  show ?case using IH st ct by auto
qed

theorem static_body_invariant_witness:
  "updatePhysicsN [1 / 60, 1 / 30] anchoredScene
     = Some (the (updatePhysicsN [1 / 60, 1 / 30] anchoredScene)) \<and>
   0 < length (celestialBodies anchoredScene) \<and>
   isStatic (celestialBodies anchoredScene ! 0) \<and>
   position (celestialBodies (the (updatePhysicsN [1 / 60, 1 / 30] anchoredScene)) ! 0) = (0, 0, 0) \<and>
   velocity (celestialBodies (the (updatePhysicsN [1 / 60, 1 / 30] anchoredScene)) ! 0) = (0, 0, 0) \<and>
   acceleration (celestialBodies (the (updatePhysicsN [1 / 60, 1 / 30] anchoredScene)) ! 0) = (0, 0, 0)"
proof -
  have run: "updatePhysicsN [1 / 60, 1 / 30] anchoredScene
     = Some (the (updatePhysicsN [1 / 60, 1 / 30] anchoredScene))"
    by (rule the_Some) (rule updatePhysicsN_defined[OF anchoredScene_allocated])
  have len: "0 < length (celestialBodies anchoredScene)"
    by (simp add: anchoredScene_def)
  have st: "isStatic (celestialBodies anchoredScene ! 0)"
    by (simp add: anchoredScene_def bodyAt_def)
  show ?thesis
    using static_body_invariant[OF run len st] run len st
    by (simp add: anchoredScene_def bodyAt_def startGlobals_def vec3_zero_def)
qed

text \<open>
  C1 as stated fails: the sun that \<open>initializeCelestialBodies\<close> creates is not static
  (the constructor is called with \<open>stat = false\<close>), and the planet pulls it. From the
  scene at program start, one step of a sixtieth of a second gives the sun a velocity
  and moves it.
\<close>

theorem sun_is_integrated:
  "\<not> isStatic (celestialBodies startScene ! 0) \<and>
   position (celestialBodies startScene ! 0) = (0, 0, 0) \<and>
   velocity (celestialBodies startScene ! 0) = (0, 0, 0) \<and>
   updatePhysics (1 / 60) startScene = Some (the (updatePhysics (1 / 60) startScene)) \<and>
   velocity (celestialBodies (the (updatePhysics (1 / 60) startScene)) ! 0) = (100 / 147, 0, 0) \<and>
   position (celestialBodies (the (updatePhysics (1 / 60) startScene)) ! 0) = (5 / 441, 0, 0)"
proof -
  obtain sun planet where bs: "celestialBodies startScene = [sun, planet]"
    and sun: "position sun = (0, 0, 0)" "velocity sun = (0, 0, 0)" "acceleration sun = (0, 0, 0)"
      "mass sun = 20000" "\<not> isStatic sun" "\<not> isAsteroid sun"
    and planet: "position planet = (70, 0, 0)" "mass planet = 200" "\<not> isAsteroid planet"
    using startScene_bodies by blast
  let ?s' = "the (updatePhysics (1 / 60) startScene)"
  let ?F = "forcePhase 1000 [sun, planet]"
  have step: "updatePhysics (1 / 60) startScene = Some ?s'" by (rule startScene_step)
  have "celestialBodies ?s' = map (update (1 / 60)) ?F"
    using updatePhysics_bodies[OF step] startScene_controls bs by simp
  then have at0: "celestialBodies ?s' ! 0 = update (1 / 60) (?F ! 0)"
    by (simp add: length_forcePhase)
  have "frame (?F ! 0) = frame ([sun, planet] ! 0)"
    by (rule frame_nth[OF frame_forcePhase]) simp
  then have F0: "position (?F ! 0) = (0, 0, 0)" "velocity (?F ! 0) = (0, 0, 0)"
      "\<not> isStatic (?F ! 0)"
    using frame_eq_fields[of "?F ! 0" sun] sun by simp_all
  have acc: "acceleration (?F ! 0) = (2000 / 49, 0, 0)"
    using forcePhase_acceleration[of 0 "[sun, planet]" 1000] sun planet
    by (simp add: softened_contribution_def softened_direction_def sqrt_4900)
  have "velocity (update (1 / 60) (?F ! 0)) = (100 / 147, 0, 0)"
       "position (update (1 / 60) (?F ! 0)) = (5 / 441, 0, 0)"
    using update_moving[OF F0(3), of "1 / 60"] F0 acc by simp_all
  then show ?thesis using at0 step bs sun by simp
qed

subsection \<open>Force accumulation\<close>

text \<open>
  C2, as amended: after the force phase, the acceleration of a body \<open>i\<close> that is not
  static and whose mass is not zero is its acceleration before, plus, for every
  \<open>j \<noteq> i\<close> such that \<open>i\<close> and \<open>j\<close> are not both asteroids, in index order,
  \<open>G * mass[i] * mass[j] / max(|r|^2, 1e-4)\<close> times \<open>r / sqrt(max(|r|^2, 1e-4))\<close>, divided
  by \<open>mass[i]\<close>, with \<open>r = position[j] - position[i]\<close>: the floor is applied to the
  squared separation before both the force magnitude and the direction are computed,
  so the direction is the unit vector only when \<open>|r|^2 \<ge> 1e-4\<close>. A static body and a
  body of mass zero receive nothing.
\<close>

theorem force_accumulation:
  assumes "i < length bs"
  shows "acceleration (forcePhase G bs ! i) =
     (if isStatic (bs ! i) \<or> mass (bs ! i) = 0 then acceleration (bs ! i)
      else fold (\<lambda>j a. if j = i \<or> (isAsteroid (bs ! i) \<and> isAsteroid (bs ! j)) then a
                        else vec3_add a (softened_contribution G (bs ! i) (bs ! j)))
             [0..<length bs] (acceleration (bs ! i)))"
  using assms by (rule forcePhase_acceleration)

theorem force_accumulation_witness:
  "0 < length [bodyAt (0, 0, 0) 2 False False, bodyAt (1, 0, 0) 3 False False] \<and>
   acceleration (forcePhase 1 [bodyAt (0, 0, 0) 2 False False, bodyAt (1, 0, 0) 3 False False] ! 0)
     = (3, 0, 0)"
  using force_accumulation [of 0 "[bodyAt (0, 0, 0) 2 False False, bodyAt (1, 0, 0) 3 False False]" 1]
  by (simp add: softened_contribution_def softened_direction_def)

text \<open>
  C2 as stated fails in two ways. For two bodies a thousandth of a unit apart the
  source adds \<open>(1000, 0, 0)\<close> where the stated formula, with the unit vector, gives
  \<open>(10000, 0, 0)\<close>; and a static body receives nothing where the stated formula gives
  \<open>(1, 0, 0)\<close>.
\<close>

theorem unit_vector_contribution_fails:
  "acceleration (pairStep 1 0 1 [bodyAt (0, 0, 0) 1 False False,
                                 bodyAt (1 / 1000, 0, 0) 1 False False] ! 0) = (1000, 0, 0) \<and>
   vec3_add (acceleration (bodyAt (0, 0, 0) 1 False False))
     (spec_contribution 1 (bodyAt (0, 0, 0) 1 False False) (bodyAt (1 / 1000, 0, 0) 1 False False))
     = (10000, 0, 0) \<and>
   acceleration (pairStep 1 0 1 [bodyAt (0, 0, 0) 1 True False,
                                 bodyAt (1, 0, 0) 1 False False] ! 0) = (0, 0, 0) \<and>
   vec3_add (acceleration (bodyAt (0, 0, 0) 1 True False))
     (spec_contribution 1 (bodyAt (0, 0, 0) 1 True False) (bodyAt (1, 0, 0) 1 False False))
     = (1, 0, 0)"
  by (simp add: pairStep_def applyForce_def force_vec_def spec_contribution_def unit_vector_def
        sqrt_small vec3_zero_def)

subsection \<open>Asteroids do not pull each other\<close>

text \<open>
  C3: after the force phase an asteroid is what \<open>applyForce\<close> makes of it with the
  forces of the bodies that are not asteroids, in store order, each computed from the
  positions and masses at the start of the step. No other asteroid enters.
\<close>

theorem swarm_no_mutual_force:
  assumes "i < length bs"
    and "isAsteroid (bs ! i)"
  shows "forcePhase G bs ! i =
     fold (\<lambda>bj b. applyForce (force_vec G b bj) b) (filter (\<lambda>bj. \<not> isAsteroid bj) bs) (bs ! i)"
  using assms by (simp add: forcePhase_nth accumulate_asteroid map_nth)

theorem swarm_no_mutual_force_witness:
  "1 < length [bodyAt (0, 0, 0) 2 False False, bodyAt (1, 0, 0) 3 False True,
               bodyAt (2, 0, 0) 5 False True] \<and>
   isAsteroid ([bodyAt (0, 0, 0) 2 False False, bodyAt (1, 0, 0) 3 False True,
                bodyAt (2, 0, 0) 5 False True] ! 1) \<and>
   acceleration (forcePhase 1 [bodyAt (0, 0, 0) 2 False False, bodyAt (1, 0, 0) 3 False True,
                               bodyAt (2, 0, 0) 5 False True] ! 1) = (- 2, 0, 0)"
  using swarm_no_mutual_force [of 1 "[bodyAt (0, 0, 0) 2 False False, bodyAt (1, 0, 0) 3 False True,
               bodyAt (2, 0, 0) 5 False True]" 1]
  by (simp add: applyForce_def force_vec_def vec3_zero_def)

subsection \<open>Integration\<close>

text \<open>
  C4: in a step that is not skipped, a body that is not static gets, with
  \<open>dt' = dt * simulationSpeed\<close> and the acceleration \<open>a\<close> that the force phase left:
  velocity \<open>+= a * dt'\<close>, then position \<open>+= velocity * dt'\<close> with the new velocity, then
  acceleration zero and the transform
  \<open>translate(position) * mat4_cast(orientation) * scale(radiusScale)\<close> of the new
  position; orientation and scale are kept.
\<close>

theorem semi_implicit_euler:
  assumes "updatePhysics dt s = Some s'"
    and "\<not> pauseSimulation s"
    and "dt * simulationSpeed s \<noteq> 0"
    and "i < length (celestialBodies s)"
    and "\<not> isStatic (celestialBodies s ! i)"
  shows "(let dt' = dt * simulationSpeed s;
              b = celestialBodies s ! i;
              a = acceleration (forcePhase (G_scaled s) (celestialBodies s) ! i);
              b' = celestialBodies s' ! i
          in velocity b' = vec3_add (velocity b) (vec3_times a dt') \<and>
             position b' = vec3_add (position b) (vec3_times (velocity b') dt') \<and>
             acceleration b' = vec3_zero \<and>
             modelMatrix b' =
               mat4_mul (mat4_mul (translate mat4_identity (position b'))
                                  (mat4_cast (orientation b')))
                 (scale mat4_identity (radiusScale b', radiusScale b', radiusScale b')) \<and>
             orientation b' = orientation b \<and> radiusScale b' = radiusScale b)"
proof -
  let ?F = "forcePhase (G_scaled s) (celestialBodies s)"
  let ?dt = "dt * simulationSpeed s"
  have at: "celestialBodies s' ! i = update ?dt (?F ! i)"
    using updatePhysics_bodies[OF assms(1,2,3)] assms(4) by (simp add: length_forcePhase)
  have "frame (?F ! i) = frame (celestialBodies s ! i)"
    using frame_nth[OF frame_forcePhase assms(4)] .
  then have same: "position (?F ! i) = position (celestialBodies s ! i)"
      "velocity (?F ! i) = velocity (celestialBodies s ! i)"
      "orientation (?F ! i) = orientation (celestialBodies s ! i)"
      "radiusScale (?F ! i) = radiusScale (celestialBodies s ! i)"
      "isStatic (?F ! i) = isStatic (celestialBodies s ! i)"
    using frame_eq_fields by blast+
  have moving: "\<not> isStatic (?F ! i)" using same assms(5) by simp
  show ?thesis
    unfolding Let_def at
    using update_moving[OF moving, of ?dt] update_modelMatrix[of ?dt "?F ! i"] same
    by simp
qed

theorem semi_implicit_euler_witness:
  "updatePhysics (1 / 60) startScene = Some (the (updatePhysics (1 / 60) startScene)) \<and>
   \<not> pauseSimulation startScene \<and>
   (1 / 60) * simulationSpeed startScene \<noteq> 0 \<and>
   1 < length (celestialBodies startScene) \<and>
   \<not> isStatic (celestialBodies startScene ! 1) \<and>
   acceleration (celestialBodies (the (updatePhysics (1 / 60) startScene)) ! 1) = (0, 0, 0) \<and>
   radiusScale (celestialBodies (the (updatePhysics (1 / 60) startScene)) ! 1) = 4"
proof -
  have step: "updatePhysics (1 / 60) startScene = Some (the (updatePhysics (1 / 60) startScene))"
    by (rule startScene_step)
  have ctl: "\<not> pauseSimulation startScene" "(1 / 60) * simulationSpeed startScene \<noteq> 0"
    using startScene_controls by simp_all
  have bodies: "1 < length (celestialBodies startScene)"
      "\<not> isStatic (celestialBodies startScene ! 1)"
      "radiusScale (celestialBodies startScene ! 1) = 4"
    by (simp_all add: startScene_def initializeCelestialBodies_def Let_def startGlobals_def)
  show ?thesis
    using semi_implicit_euler[OF step ctl bodies(1,2)] step ctl bodies
    by (simp add: Let_def vec3_zero_def)
qed

subsection \<open>Paused and zero-length steps\<close>

text \<open>
  C5: when the pause flag is set, or \<open>dt * simulationSpeed\<close> equals 0, \<open>updatePhysics\<close>
  returns with the whole state as it was: every body (position, velocity, acceleration,
  transform), the host arrays, and the trace of graphics calls, so nothing is
  republished.
\<close>

theorem updatePhysics_noop:
  "pauseSimulation s \<or> dt * simulationSpeed s = 0 \<Longrightarrow> updatePhysics dt s = Some s"
  by (auto simp: updatePhysics_def)

theorem updatePhysics_noop_witness:
  "(pauseSimulation (beltScene\<lparr>pauseSimulation := True\<rparr>)
      \<or> (1 / 60) * simulationSpeed (beltScene\<lparr>pauseSimulation := True\<rparr>) = 0) \<and>
   updatePhysics (1 / 60) (beltScene\<lparr>pauseSimulation := True\<rparr>)
     = Some (beltScene\<lparr>pauseSimulation := True\<rparr>) \<and>
   (pauseSimulation beltScene \<or> 0 * simulationSpeed beltScene = 0) \<and>
   updatePhysics 0 beltScene = Some beltScene"
  using updatePhysics_noop [of "beltScene\<lparr>pauseSimulation := True\<rparr>" "1 / 60"]
        updatePhysics_noop [of beltScene 0]
  by simp

subsection \<open>Mass zero and negative mass\<close>

text \<open>
  C6, as amended: \<open>applyForce\<close> leaves a body as it is exactly when the body is static
  or its mass is exactly zero (the source tests \<open>mass == 0.0f\<close>). Every other body,
  one of negative mass included, receives \<open>force / mass\<close> on its acceleration and is
  otherwise unchanged. In the inner loop a body \<open>j\<close> of any mass, zero or negative
  included, static or not, pulls every other body \<open>i\<close> that is not static and whose
  mass is not zero by the common formula: the loop never looks at the mass or the
  static flag of \<open>j\<close>.
\<close>

theorem zero_mass_receives_nothing:
  "(isStatic b \<or> mass b = 0 \<longrightarrow> applyForce f b = b) \<and>
   (\<not> isStatic c \<and> mass c \<noteq> 0 \<longrightarrow>
    applyForce f c = c\<lparr>acceleration := vec3_add (acceleration c) (vec3_div f (mass c))\<rparr>) \<and>
   (i < length bs \<and> j < length bs \<and> i \<noteq> j \<and>
    \<not> (isAsteroid (bs ! i) \<and> isAsteroid (bs ! j)) \<and>
    \<not> isStatic (bs ! i) \<and> mass (bs ! i) \<noteq> 0 \<longrightarrow>
    acceleration (pairStep G i j bs ! i) =
      vec3_add (acceleration (bs ! i)) (softened_contribution G (bs ! i) (bs ! j)))"
  by (simp add: applyForce_def pairStep_def softened_contribution_def force_vec_softened Let_def)

theorem zero_mass_receives_nothing_witness:
  "(isStatic (bodyAt (0, 0, 0) 0 False False) \<or> mass (bodyAt (0, 0, 0) 0 False False) = 0) \<and>
   applyForce (1, 0, 0) (bodyAt (0, 0, 0) 0 False False) = bodyAt (0, 0, 0) 0 False False \<and>
   (isStatic (bodyAt (0, 0, 0) 5 True False) \<or> mass (bodyAt (0, 0, 0) 5 True False) = 0) \<and>
   applyForce (1, 0, 0) (bodyAt (0, 0, 0) 5 True False) = bodyAt (0, 0, 0) 5 True False \<and>
   \<not> isStatic (bodyAt (0, 0, 0) (- 2) False False) \<and>
   mass (bodyAt (0, 0, 0) (- 2) False False) \<noteq> 0 \<and>
   acceleration (applyForce (1, 0, 0) (bodyAt (0, 0, 0) (- 2) False False)) = (- (1 / 2), 0, 0) \<and>
   0 < length [bodyAt (0, 0, 0) (- 2) False False, bodyAt (1, 0, 0) (- 3) False False,
               bodyAt (0, 1, 0) 0 False False, bodyAt (0, 0, 1) 4 True False] \<and>
   1 < length [bodyAt (0, 0, 0) (- 2) False False, bodyAt (1, 0, 0) (- 3) False False,
               bodyAt (0, 1, 0) 0 False False, bodyAt (0, 0, 1) 4 True False] \<and>
   (0::nat) \<noteq> 1 \<and>
   \<not> (isAsteroid ([bodyAt (0, 0, 0) (- 2) False False, bodyAt (1, 0, 0) (- 3) False False,
                     bodyAt (0, 1, 0) 0 False False, bodyAt (0, 0, 1) 4 True False] ! 0) \<and>
      isAsteroid ([bodyAt (0, 0, 0) (- 2) False False, bodyAt (1, 0, 0) (- 3) False False,
                   bodyAt (0, 1, 0) 0 False False, bodyAt (0, 0, 1) 4 True False] ! 1)) \<and>
   \<not> isStatic ([bodyAt (0, 0, 0) (- 2) False False, bodyAt (1, 0, 0) (- 3) False False,
                  bodyAt (0, 1, 0) 0 False False, bodyAt (0, 0, 1) 4 True False] ! 0) \<and>
   mass ([bodyAt (0, 0, 0) (- 2) False False, bodyAt (1, 0, 0) (- 3) False False,
          bodyAt (0, 1, 0) 0 False False, bodyAt (0, 0, 1) 4 True False] ! 0) \<noteq> 0 \<and>
   acceleration (pairStep 1 0 1 [bodyAt (0, 0, 0) (- 2) False False, bodyAt (1, 0, 0) (- 3) False False,
                                 bodyAt (0, 1, 0) 0 False False, bodyAt (0, 0, 1) 4 True False] ! 0)
     = (- 3, 0, 0) \<and>
   acceleration (pairStep 1 0 2 [bodyAt (0, 0, 0) (- 2) False False, bodyAt (1, 0, 0) (- 3) False False,
                                 bodyAt (0, 1, 0) 0 False False, bodyAt (0, 0, 1) 4 True False] ! 0)
     = (0, 0, 0) \<and>
   acceleration (pairStep 1 0 3 [bodyAt (0, 0, 0) (- 2) False False, bodyAt (1, 0, 0) (- 3) False False,
                                 bodyAt (0, 1, 0) 0 False False, bodyAt (0, 0, 1) 4 True False] ! 0)
     = (0, 0, 4)"
proof -
  define bs where "bs = [bodyAt (0, 0, 0) (- 2) False False, bodyAt (1, 0, 0) (- 3) False False,
                         bodyAt (0, 1, 0) 0 False False, bodyAt (0, 0, 1) 4 True False]"
  have zero: "applyForce (1, 0, 0) (bodyAt (0, 0, 0) 0 False False) = bodyAt (0, 0, 0) 0 False False"
    using zero_mass_receives_nothing [where b = "bodyAt (0, 0, 0) 0 False False" and f = "(1, 0, 0)"]
    by simp
  have static: "applyForce (1, 0, 0) (bodyAt (0, 0, 0) 5 True False) = bodyAt (0, 0, 0) 5 True False"
    using zero_mass_receives_nothing [where b = "bodyAt (0, 0, 0) 5 True False" and f = "(1, 0, 0)"]
    by simp
  have neg: "acceleration (applyForce (1, 0, 0) (bodyAt (0, 0, 0) (- 2) False False)) = (- (1 / 2), 0, 0)"
    using zero_mass_receives_nothing [where c = "bodyAt (0, 0, 0) (- 2) False False" and f = "(1, 0, 0)"]
    by simp
  have pull: "acceleration (pairStep 1 0 1 bs ! 0) = (- 3, 0, 0)"
       "acceleration (pairStep 1 0 2 bs ! 0) = (0, 0, 0)"
       "acceleration (pairStep 1 0 3 bs ! 0) = (0, 0, 4)"
    using zero_mass_receives_nothing [where i = 0 and j = 1 and bs = bs and G = 1]
          zero_mass_receives_nothing [where i = 0 and j = 2 and bs = bs and G = 1]
          zero_mass_receives_nothing [where i = 0 and j = 3 and bs = bs and G = 1]
    by (simp_all add: bs_def softened_contribution_def softened_direction_def)
  show ?thesis
    unfolding bs_def[symmetric]
    using zero static neg pull by (simp add: bs_def)
qed

text \<open>
  C6 as stated fails for a negative mass: \<open>applyForce\<close> with the force \<open>(1, 0, 0)\<close> on a
  body of mass \<open>-1\<close> changes its acceleration from zero to \<open>(-1, 0, 0)\<close>.
\<close>

theorem negative_mass_receives_force:
  "mass (bodyAt (0, 0, 0) (- 1) False False) \<le> 0 \<and>
   acceleration (bodyAt (0, 0, 0) (- 1) False False) = (0, 0, 0) \<and>
   acceleration (applyForce (1, 0, 0) (bodyAt (0, 0, 0) (- 1) False False)) = (- 1, 0, 0)"
  by (simp add: applyForce_def)

subsection \<open>The orbiter after a rebuild\<close>

text \<open>
  C7: after \<open>initializeCelestialBodies\<close> the planet (the second body) is at the polar
  point of radius \<open>planetOrbitRadius\<close> and angle \<open>planetInitialAngle\<close> (in degrees) of
  the xz-plane, so at distance \<open>|planetOrbitRadius|\<close> from the origin; its velocity is
  perpendicular to its position, with magnitude \<open>sqrt(G * sunMass / planetOrbitRadius)\<close>
  when the sun's mass and the radius are positive, and zero otherwise. The
  gravitational constant is taken non-negative, where the square root of the source is
  defined.
\<close>

theorem orbiter_circular_orbit:
  assumes "0 \<le> G_scaled s"
  shows "(let p = celestialBodies (initializeCelestialBodies L seed s) ! 1;
              R = planetOrbitRadius s;
              a = radians (planetInitialAngle s)
          in position p = (R * cos a, 0, R * sin a) \<and>
             sqrt (dot (position p) (position p)) = \<bar>R\<bar> \<and>
             dot (position p) (velocity p) = 0 \<and>
             sqrt (dot (velocity p) (velocity p)) =
               (if sunMass s > 0 \<and> R > 0 then sqrt (G_scaled s * sunMass s / R) else 0))"
proof -
  define R where "R = planetOrbitRadius s"
  define a where "a = radians (planetInitialAngle s)"
  define v where "v = (if sunMass s > 0 \<and> R > 0 then sqrt (G_scaled s * sunMass s / R) else 0)"
  define p where "p = celestialBodies (initializeCelestialBodies L seed s) ! 1"
  have pos: "position p = (R * cos a, 0, R * sin a)"
    and vel: "velocity p = (- v * sin a, 0, v * cos a)"
    using init_shape[of L seed s] by (auto simp: p_def R_def a_def v_def)
  have v0: "0 \<le> v" using assms by (simp add: v_def)
  have sq: "x * cos a * (x * cos a) + x * sin a * (x * sin a) = x\<^sup>2" for x :: real
  proof -
    have "x * cos a * (x * cos a) + x * sin a * (x * sin a) = x\<^sup>2 * ((sin a)\<^sup>2 + (cos a)\<^sup>2)"
      by algebra
    also have "\<dots> = x\<^sup>2" by (simp only: sin_cos_squared_add mult_1_right)
    finally show ?thesis .
  qed
  have "sqrt (dot (position p) (position p)) = \<bar>R\<bar>"
    using sq[of R] by (simp add: pos)
  moreover have "dot (position p) (velocity p) = 0"
    by (simp add: pos vel)
  moreover have "sqrt (dot (velocity p) (velocity p)) = v"
    using sq[of v] v0 by (simp add: vel add.commute)
  ultimately show ?thesis
    unfolding Let_def p_def[symmetric] R_def[symmetric] a_def[symmetric] v_def[symmetric]
    using pos by simp
qed

theorem orbiter_circular_orbit_witness:
  "0 \<le> G_scaled startGlobals \<and>
   position (celestialBodies startScene ! 1) = (70, 0, 0) \<and>
   dot (position (celestialBodies startScene ! 1)) (velocity (celestialBodies startScene ! 1)) = 0 \<and>
   sqrt (dot (velocity (celestialBodies startScene ! 1)) (velocity (celestialBodies startScene ! 1)))
     = sqrt (1000 * 20000 / 70)"
proof -
  have h: "0 \<le> G_scaled startGlobals" by (simp add: startGlobals_def)
  note w = orbiter_circular_orbit [OF h, of counterRandom 0, unfolded Let_def, folded startScene_def]
  have vals: "planetOrbitRadius startGlobals = 70" "radians (planetInitialAngle startGlobals) = 0"
      "sunMass startGlobals = 20000" "G_scaled startGlobals = 1000"
    by (simp_all add: startGlobals_def radians_def)
  have c1: "position (celestialBodies startScene ! 1) = (70, 0, 0)"
    using w by (simp add: vals)
  have c3: "dot (position (celestialBodies startScene ! 1))
                (velocity (celestialBodies startScene ! 1)) = 0"
    using w by blast
  have c4: "sqrt (dot (velocity (celestialBodies startScene ! 1))
                      (velocity (celestialBodies startScene ! 1))) = sqrt (1000 * 20000 / 70)"
    using w by (simp add: vals)
  show ?thesis using h c1 c3 c4 by blast
qed

subsection \<open>Publishing the instance matrices\<close>

text \<open>
  C8: after a rebuild with \<open>asteroidAmount = N\<close> exactly \<open>N\<close> bodies are asteroids.
  A following step that is not skipped returns, and leaves in the two host arrays, slot
  by slot and in store order, the transform of each asteroid and the inverse-transpose
  of its upper 3x3 block; when \<open>N > 0\<close> and both instance buffers exist, the two
  \<open>glBufferSubData\<close> calls cover \<open>N\<close> matrices, the number written (otherwise no
  call is made).
\<close>

theorem rebuild_then_step_publishes:
  "(let s1 = initializeCelestialBodies L seed s0; N = asteroidAmount s0
    in length (filter isAsteroid (celestialBodies s1)) = N \<and>
       (\<not> pauseSimulation s0 \<and> dt * simulationSpeed s0 \<noteq> 0 \<longrightarrow>
        (\<exists>s2. updatePhysics dt s1 = Some s2 \<and>
           (let asts = filter isAsteroid (celestialBodies s2)
            in length asts = N \<and>
               asteroidModelMatrices s2 =
                 (if N = 0 then None else Some (map (\<lambda>b. Some (modelMatrix b)) asts)) \<and>
               asteroidNormalMatrices s2 =
                 (if N = 0 then None
                  else Some (map (\<lambda>b. Some (inverse_transpose_upper3 (modelMatrix b))) asts)) \<and>
               glCalls s2 = glCalls s0 @
                 (if N \<noteq> 0 \<and> asteroidInstanceVBO s0 \<noteq> 0 \<and> asteroidNormalInstanceVBO s0 \<noteq> 0
                  then [BindBuffer (asteroidInstanceVBO s0),
                        BufferSubDataMat4 0 (N * sizeof_mat4) (map (\<lambda>b. Some (modelMatrix b)) asts),
                        BindBuffer (asteroidNormalInstanceVBO s0),
                        BufferSubDataMat3 0 (N * sizeof_mat3)
                          (map (\<lambda>b. Some (inverse_transpose_upper3 (modelMatrix b))) asts),
                        BindBuffer 0]
                  else [])))))"
proof -
  define s1 where "s1 = initializeCelestialBodies L seed s0"
  define N where "N = asteroidAmount s0"
  note fr = init_frame[of L seed s0, folded s1_def N_def]
  note ar = init_arrays[of L seed s0, folded s1_def N_def]
  have al: "allocatedFor (asteroidAmount s1) (asteroidModelMatrices s1)"
           "allocatedFor (asteroidAmount s1) (asteroidNormalMatrices s1)"
    using init_allocated[of L seed s0] by (simp_all add: s1_def)
  have count: "length (filter isAsteroid (celestialBodies s1)) = N"
    by (simp add: s1_def N_def init_count)
  have step: "\<exists>s2. updatePhysics dt s1 = Some s2 \<and>
           (let asts = filter isAsteroid (celestialBodies s2)
            in length asts = N \<and>
               asteroidModelMatrices s2 =
                 (if N = 0 then None else Some (map (\<lambda>b. Some (modelMatrix b)) asts)) \<and>
               asteroidNormalMatrices s2 =
                 (if N = 0 then None
                  else Some (map (\<lambda>b. Some (inverse_transpose_upper3 (modelMatrix b))) asts)) \<and>
               glCalls s2 = glCalls s0 @
                 (if N \<noteq> 0 \<and> asteroidInstanceVBO s0 \<noteq> 0 \<and> asteroidNormalInstanceVBO s0 \<noteq> 0
                  then [BindBuffer (asteroidInstanceVBO s0),
                        BufferSubDataMat4 0 (N * sizeof_mat4) (map (\<lambda>b. Some (modelMatrix b)) asts),
                        BindBuffer (asteroidNormalInstanceVBO s0),
                        BufferSubDataMat3 0 (N * sizeof_mat3)
                          (map (\<lambda>b. Some (inverse_transpose_upper3 (modelMatrix b))) asts),
                        BindBuffer 0]
                  else []))"
    if run: "\<not> pauseSimulation s0" "dt * simulationSpeed s0 \<noteq> 0"
  proof -
    define bs' where "bs' = map (update (dt * simulationSpeed s1))
                              (forcePhase (G_scaled s1) (celestialBodies s1))"
    define asts where "asts = filter isAsteroid bs'"
    have len: "length asts = N"
      unfolding asts_def bs'_def using stepped_count count by simp
    then have ws: "take (asteroidAmount s1) (filter isAsteroid bs') = asts"
      using fr by (simp add: asts_def)
    have ne: "(asts \<noteq> []) = (N \<noteq> 0)" using len by auto
    have run1: "\<not> pauseSimulation s1" "dt * simulationSpeed s1 \<noteq> 0" using run fr by simp_all
    note eff = updatePhysics_effective[OF run1 al, unfolded Let_def, folded bs'_def, unfolded ws]
    have o1: "map_option (overwrite (map modelMatrix asts)) (asteroidModelMatrices s1) =
              (if N = 0 then None else Some (map (\<lambda>b. Some (modelMatrix b)) asts))"
      using ar len by (simp add: overwrite_all comp_def)
    have o2: "map_option (overwrite (map (\<lambda>b. inverse_transpose_upper3 (modelMatrix b)) asts))
                (asteroidNormalMatrices s1) =
              (if N = 0 then None
               else Some (map (\<lambda>b. Some (inverse_transpose_upper3 (modelMatrix b))) asts))"
      using ar len by (simp add: overwrite_all comp_def)
    show ?thesis
      unfolding eff Let_def
      using fr len ne o1 o2
      by (simp add: asts_def[symmetric] comp_def)
  qed
  show ?thesis
    unfolding s1_def[symmetric] N_def[symmetric] Let_def
    using count step by (simp add: Let_def)
qed

theorem rebuild_then_step_publishes_witness:
  "\<not> pauseSimulation (startGlobals\<lparr>asteroidAmount := 2, asteroidInstanceVBO := 1,
                                       asteroidNormalInstanceVBO := 2\<rparr>) \<and>
   (1 / 60) * simulationSpeed (startGlobals\<lparr>asteroidAmount := 2, asteroidInstanceVBO := 1,
                                       asteroidNormalInstanceVBO := 2\<rparr>) \<noteq> 0 \<and>
   length (filter isAsteroid (celestialBodies beltScene)) = 2 \<and>
   updatePhysics (1 / 60) beltScene = Some (the (updatePhysics (1 / 60) beltScene)) \<and>
   length (filter isAsteroid (celestialBodies (the (updatePhysics (1 / 60) beltScene)))) = 2 \<and>
   asteroidModelMatrices (the (updatePhysics (1 / 60) beltScene)) =
     Some (map (\<lambda>b. Some (modelMatrix b))
             (filter isAsteroid (celestialBodies (the (updatePhysics (1 / 60) beltScene))))) \<and>
   length (glCalls (the (updatePhysics (1 / 60) beltScene))) = 5"
proof -
  note w = rebuild_then_step_publishes [of counterRandom 0
      "startGlobals\<lparr>asteroidAmount := 2, asteroidInstanceVBO := 1, asteroidNormalInstanceVBO := 2\<rparr>"
      "1 / 60", unfolded Let_def, folded beltScene_def]
  have vals: "asteroidAmount (startGlobals\<lparr>asteroidAmount := 2, asteroidInstanceVBO := 1,
                                       asteroidNormalInstanceVBO := 2\<rparr>) = 2"
      "asteroidInstanceVBO (startGlobals\<lparr>asteroidAmount := 2, asteroidInstanceVBO := 1,
                                       asteroidNormalInstanceVBO := 2\<rparr>) = 1"
      "asteroidNormalInstanceVBO (startGlobals\<lparr>asteroidAmount := 2, asteroidInstanceVBO := 1,
                                       asteroidNormalInstanceVBO := 2\<rparr>) = 2"
      "glCalls (startGlobals\<lparr>asteroidAmount := 2, asteroidInstanceVBO := 1,
                                       asteroidNormalInstanceVBO := 2\<rparr>) = []"
    by (simp_all add: startGlobals_def)
  note count = conjunct1[OF w, unfolded vals]
  note step = ex_Some_the[OF mp[OF conjunct2[OF w] beltScene_source], unfolded vals]
  have defined: "updatePhysics (1 / 60) beltScene = Some (the (updatePhysics (1 / 60) beltScene))"
    using step by (rule conjunct1)
  have after: "length (filter isAsteroid (celestialBodies (the (updatePhysics (1 / 60) beltScene)))) = 2"
    "asteroidModelMatrices (the (updatePhysics (1 / 60) beltScene)) =
     Some (map (\<lambda>b. Some (modelMatrix b))
             (filter isAsteroid (celestialBodies (the (updatePhysics (1 / 60) beltScene)))))"
    "length (glCalls (the (updatePhysics (1 / 60) beltScene))) = 5"
    using conjunct2[OF step] by simp_all
  show ?thesis
    by (intro conjI) (simp_all only: beltScene_source count defined[symmetric] after simp_thms)
qed

subsection \<open>Rebuilding is a function of the configuration and the seed\<close>

text \<open>
  C9: the bodies that \<open>initializeCelestialBodies\<close> builds, and so the asteroids among
  them, depend on the state before the call only through the configuration, and
  otherwise on the seed alone: two rebuilds from any two states with the same
  configuration, with the same seed, give the same store (every field of every body)
  and the same fresh host arrays.
\<close>

theorem rebuild_deterministic:
  assumes "config s = config s'"
  shows "celestialBodies (initializeCelestialBodies L seed s) =
           celestialBodies (initializeCelestialBodies L seed s') \<and>
         filter isAsteroid (celestialBodies (initializeCelestialBodies L seed s)) =
           filter isAsteroid (celestialBodies (initializeCelestialBodies L seed s')) \<and>
         asteroidModelMatrices (initializeCelestialBodies L seed s) =
           asteroidModelMatrices (initializeCelestialBodies L seed s') \<and>
         asteroidNormalMatrices (initializeCelestialBodies L seed s) =
           asteroidNormalMatrices (initializeCelestialBodies L seed s')"
proof -
  have f: "G_scaled s = G_scaled s'" "sunMass s = sunMass s'" "sunRadiusScale s = sunRadiusScale s'"
    "planetMass s = planetMass s'" "planetRadiusScale s = planetRadiusScale s'"
    "planetOrbitRadius s = planetOrbitRadius s'" "planetInitialAngle s = planetInitialAngle s'"
    "asteroidAmount s = asteroidAmount s'" "planetModelPtr s = planetModelPtr s'"
    using assms by (simp_all add: config_def)
  have loop: "asteroidLoop L (s\<lparr>celestialBodies := bs, asteroidModelMatrices := M,
                                 asteroidNormalMatrices := N\<rparr>) n g bs0 =
              asteroidLoop L (s'\<lparr>celestialBodies := bs, asteroidModelMatrices := M,
                                  asteroidNormalMatrices := N\<rparr>) n g bs0" for bs M N n g bs0
    by (rule asteroidLoop_config) (use assms in \<open>simp add: config_def\<close>)
  have bodies: "celestialBodies (initializeCelestialBodies L seed s) =
           celestialBodies (initializeCelestialBodies L seed s')"
    by (simp add: initializeCelestialBodies_def Let_def f loop)
  have arrays: "asteroidModelMatrices (initializeCelestialBodies L seed s) =
           asteroidModelMatrices (initializeCelestialBodies L seed s')"
      "asteroidNormalMatrices (initializeCelestialBodies L seed s) =
           asteroidNormalMatrices (initializeCelestialBodies L seed s')"
    by (simp_all add: init_arrays f)
  show ?thesis using bodies arrays by simp
qed

theorem rebuild_deterministic_witness:
  "config (startGlobals\<lparr>asteroidAmount := 2\<rparr>) = config (beltScene\<lparr>pauseSimulation := True\<rparr>) \<and>
   celestialBodies (initializeCelestialBodies counterRandom 3 (startGlobals\<lparr>asteroidAmount := 2\<rparr>)) =
   celestialBodies (initializeCelestialBodies counterRandom 3 (beltScene\<lparr>pauseSimulation := True\<rparr>))"
proof -
  have c: "config (startGlobals\<lparr>asteroidAmount := 2\<rparr>) = config (beltScene\<lparr>pauseSimulation := True\<rparr>)"
    using init_config[of counterRandom 0 "startGlobals\<lparr>asteroidAmount := 2, asteroidInstanceVBO := 1,
                      asteroidNormalInstanceVBO := 2\<rparr>"]
    by (simp add: beltScene_def config_def)
  show ?thesis using rebuild_deterministic [OF c, of counterRandom 3] c by blast
qed

subsection \<open>Writes stay inside the host arrays\<close>

text \<open>
  C10: with the host arrays allocated for \<open>asteroidAmount\<close>, as a rebuild leaves them,
  every call of \<open>updatePhysics\<close> returns without a write outside them, however many
  asteroids the store holds. In a step that is not skipped the slots written are the
  first \<open>k = min(number of asteroids, asteroidAmount)\<close>, with the transforms and normal
  matrices of the first \<open>k\<close> asteroids of the store; the slots from \<open>k\<close> on are as before,
  the arrays keep their sizes, and the \<open>glBufferSubData\<close> calls, made when \<open>k > 0\<close> and
  both buffers exist, cover \<open>k\<close> matrices.
\<close>

theorem publish_within_allocation:
  assumes "allocatedFor (asteroidAmount s) (asteroidModelMatrices s)"
    and "allocatedFor (asteroidAmount s) (asteroidNormalMatrices s)"
  shows "\<exists>s'. updatePhysics dt s = Some s' \<and>
     (\<not> pauseSimulation s \<and> dt * simulationSpeed s \<noteq> 0 \<longrightarrow>
       (let k = min (length (filter isAsteroid (celestialBodies s))) (asteroidAmount s);
            ws = take k (filter isAsteroid (celestialBodies s'))
        in length ws = k \<and>
           asteroidModelMatrices s' =
             map_option (overwrite (map modelMatrix ws)) (asteroidModelMatrices s) \<and>
           asteroidNormalMatrices s' =
             map_option (overwrite (map (\<lambda>b. inverse_transpose_upper3 (modelMatrix b)) ws))
               (asteroidNormalMatrices s) \<and>
           allocatedFor (asteroidAmount s') (asteroidModelMatrices s') \<and>
           allocatedFor (asteroidAmount s') (asteroidNormalMatrices s') \<and>
           glCalls s' = glCalls s @
             (if 0 < k \<and> asteroidInstanceVBO s \<noteq> 0 \<and> asteroidNormalInstanceVBO s \<noteq> 0
              then [BindBuffer (asteroidInstanceVBO s),
                    BufferSubDataMat4 0 (k * sizeof_mat4) (map Some (map modelMatrix ws)),
                    BindBuffer (asteroidNormalInstanceVBO s),
                    BufferSubDataMat3 0 (k * sizeof_mat3)
                      (map Some (map (\<lambda>b. inverse_transpose_upper3 (modelMatrix b)) ws)),
                    BindBuffer 0]
              else [])))"
proof (cases "pauseSimulation s \<or> dt * simulationSpeed s = 0")
  case True
  then show ?thesis using updatePhysics_skip[of s dt] by auto
next
  case False
  define bs' where "bs' = map (update (dt * simulationSpeed s)) (forcePhase (G_scaled s) (celestialBodies s))"
  define k where "k = min (length (filter isAsteroid (celestialBodies s))) (asteroidAmount s)"
  define ws where "ws = take (asteroidAmount s) (filter isAsteroid bs')"
  define s' where "s' = s\<lparr>celestialBodies := bs',
                 asteroidModelMatrices :=
                   map_option (overwrite (map modelMatrix ws)) (asteroidModelMatrices s),
                 asteroidNormalMatrices :=
                   map_option (overwrite (map (\<lambda>b. inverse_transpose_upper3 (modelMatrix b)) ws))
                     (asteroidNormalMatrices s),
                 glCalls := glCalls s @
                   (if ws \<noteq> [] \<and> asteroidInstanceVBO s \<noteq> 0 \<and> asteroidNormalInstanceVBO s \<noteq> 0
                    then [BindBuffer (asteroidInstanceVBO s),
                          BufferSubDataMat4 0 (length ws * sizeof_mat4) (map Some (map modelMatrix ws)),
                          BindBuffer (asteroidNormalInstanceVBO s),
                          BufferSubDataMat3 0 (length ws * sizeof_mat3)
                            (map Some (map (\<lambda>b. inverse_transpose_upper3 (modelMatrix b)) ws)),
                          BindBuffer 0]
                    else [])\<rparr>"
  have res: "updatePhysics dt s = Some s'"
    using updatePhysics_effective[OF _ _ assms, of dt] False
    by (simp add: Let_def s'_def ws_def bs'_def)
  have cnt: "length (filter isAsteroid bs') = length (filter isAsteroid (celestialBodies s))"
    unfolding bs'_def by (rule stepped_count)
  have ws_k: "ws = take k (filter isAsteroid bs')"
    unfolding ws_def k_def cnt[symmetric] by (rule take_min_length)
  have len: "length ws = k" by (simp add: ws_k k_def cnt)
  have ne: "(ws \<noteq> []) = (0 < k)" using len by auto
  have al: "allocatedFor (asteroidAmount s') (asteroidModelMatrices s')"
           "allocatedFor (asteroidAmount s') (asteroidNormalMatrices s')"
    using assms len
    by (auto simp: s'_def allocatedFor_def k_def length_overwrite split: option.splits)
  have "celestialBodies s' = bs'" by (simp add: s'_def)
  then have ws_s': "take k (filter isAsteroid (celestialBodies s')) = ws" using ws_k by simp
  have body: "asteroidModelMatrices s' =
             map_option (overwrite (map modelMatrix ws)) (asteroidModelMatrices s)"
      "asteroidNormalMatrices s' =
             map_option (overwrite (map (\<lambda>b. inverse_transpose_upper3 (modelMatrix b)) ws))
               (asteroidNormalMatrices s)"
      "glCalls s' = glCalls s @
             (if 0 < k \<and> asteroidInstanceVBO s \<noteq> 0 \<and> asteroidNormalInstanceVBO s \<noteq> 0
              then [BindBuffer (asteroidInstanceVBO s),
                    BufferSubDataMat4 0 (k * sizeof_mat4) (map Some (map modelMatrix ws)),
                    BindBuffer (asteroidNormalInstanceVBO s),
                    BufferSubDataMat3 0 (k * sizeof_mat3)
                      (map Some (map (\<lambda>b. inverse_transpose_upper3 (modelMatrix b)) ws)),
                    BindBuffer 0]
              else [])"
    unfolding s'_def ne len by simp_all
  show ?thesis
    unfolding k_def[symmetric] Let_def
    using res body al len ws_s' by (intro exI[of _ s']) (simp only: simp_thms)
qed

theorem publish_within_allocation_witness:
  "allocatedFor (asteroidAmount (beltScene\<lparr>asteroidAmount := 1, asteroidModelMatrices := Some [None],
                                        asteroidNormalMatrices := Some [None]\<rparr>))
     (asteroidModelMatrices (beltScene\<lparr>asteroidAmount := 1, asteroidModelMatrices := Some [None],
                                        asteroidNormalMatrices := Some [None]\<rparr>)) \<and>
   allocatedFor (asteroidAmount (beltScene\<lparr>asteroidAmount := 1, asteroidModelMatrices := Some [None],
                                        asteroidNormalMatrices := Some [None]\<rparr>))
     (asteroidNormalMatrices (beltScene\<lparr>asteroidAmount := 1, asteroidModelMatrices := Some [None],
                                        asteroidNormalMatrices := Some [None]\<rparr>)) \<and>
   \<not> pauseSimulation (beltScene\<lparr>asteroidAmount := 1, asteroidModelMatrices := Some [None],
                                  asteroidNormalMatrices := Some [None]\<rparr>) \<and>
   (1 / 60) * simulationSpeed (beltScene\<lparr>asteroidAmount := 1, asteroidModelMatrices := Some [None],
                                          asteroidNormalMatrices := Some [None]\<rparr>) \<noteq> 0 \<and>
   length (filter isAsteroid (celestialBodies (beltScene\<lparr>asteroidAmount := 1,
             asteroidModelMatrices := Some [None], asteroidNormalMatrices := Some [None]\<rparr>))) = 2 \<and>
   updatePhysics (1 / 60) (beltScene\<lparr>asteroidAmount := 1, asteroidModelMatrices := Some [None],
                                      asteroidNormalMatrices := Some [None]\<rparr>)
     = Some (the (updatePhysics (1 / 60) (beltScene\<lparr>asteroidAmount := 1,
                    asteroidModelMatrices := Some [None], asteroidNormalMatrices := Some [None]\<rparr>))) \<and>
   length (glCalls (the (updatePhysics (1 / 60) (beltScene\<lparr>asteroidAmount := 1,
                    asteroidModelMatrices := Some [None], asteroidNormalMatrices := Some [None]\<rparr>)))) = 5"
proof -
  define S where "S = beltScene\<lparr>asteroidAmount := 1, asteroidModelMatrices := Some [None],
                      asteroidNormalMatrices := Some [None]\<rparr>"
  have al: "allocatedFor (asteroidAmount S) (asteroidModelMatrices S)"
           "allocatedFor (asteroidAmount S) (asteroidNormalMatrices S)"
    by (simp_all add: S_def allocatedFor_def)
  have ctl: "\<not> pauseSimulation S \<and> (1 / 60) * simulationSpeed S \<noteq> 0"
    by (simp add: S_def beltScene_def init_frame startGlobals_def)
  have vals: "asteroidInstanceVBO S = 1" "asteroidNormalInstanceVBO S = 2" "glCalls S = []"
      "asteroidAmount S = 1"
    by (simp_all add: S_def beltScene_def init_frame startGlobals_def)
  have cnt: "length (filter isAsteroid (celestialBodies S)) = 2"
    by (simp add: S_def beltScene_def init_count)
  note w = ex_Some_the[OF publish_within_allocation [OF al, of "1 / 60"]]
  have defined: "updatePhysics (1 / 60) S = Some (the (updatePhysics (1 / 60) S))"
    using w by (rule conjunct1)
  have five: "length (glCalls (the (updatePhysics (1 / 60) S))) = 5"
    using mp[OF conjunct2[OF w] ctl] by (simp add: Let_def cnt vals)
  show ?thesis
    unfolding S_def[symmetric]
    using al ctl cnt defined five by (simp only: simp_thms)
qed

end
